theory Spec2Isabelle
  imports Main "HOL-Library.List_Lexorder"
begin

section \<open>StringPool: a bump-pointer string allocator and its string handles\<close>

text \<open>
  A shallow embedding of \<^verbatim>\<open>StringPool/StringPool/StringPool.h\<close>: the class
  \<^verbatim>\<open>StringPool::String\<close> (a pointer and a length) and the class
  \<^verbatim>\<open>StringPool::Allocator\<close> (a list of chunks, a cursor and a limit).

  Pointers are byte addresses, natural numbers, with \<open>nullptr\<close> the address 0. Adding
  \<open>n\<close> to a \<^verbatim>\<open>wchar_t*\<close> adds \<open>n * sizeof(wchar_t)\<close> to the address. Addresses are
  unbounded: pointer arithmetic that would leave the address space is undefined behaviour
  in the source and is not modelled. The sizes \<^verbatim>\<open>sizeof(wchar_t)\<close> and
  \<^verbatim>\<open>sizeof(ChunkHeader)\<close> depend on the platform and are parameters.

  Sizes and lengths (\<^verbatim>\<open>size_t\<close>) are natural numbers. The one product of the source,
  \<^verbatim>\<open>length * sizeof(wchar_t) + sizeof(ChunkHeader)\<close>, is computed only for a length of at
  most \<^verbatim>\<open>kMaxStringLength\<close>, where it is far below \<open>2^32\<close> on the platforms named
  below, so it never wraps. Three statements of \<^verbatim>\<open>AllocMemory\<close> can raise
  \<^verbatim>\<open>std::bad_alloc\<close>: its two \<^verbatim>\<open>throw\<close> statements, and
  \<^verbatim>\<open>m_chunks.push_back\<close>, when the vector cannot obtain room for one more element.
\<close>

subsection \<open>Platform and memory\<close>

type_synonym addr = nat

definition nullptr :: addr where
  "nullptr = 0"

record abi =
  sizeof_wchar_t :: nat
  sizeof_ChunkHeader :: nat

text \<open>Microsoft x64 (the repository is a Visual Studio solution) and x86-64 Linux.\<close>

definition msvc_x64 :: abi where
  "msvc_x64 = \<lparr>sizeof_wchar_t = 2, sizeof_ChunkHeader = 16\<rparr>"

definition linux_x64 :: abi where
  "linux_x64 = \<lparr>sizeof_wchar_t = 4, sizeof_ChunkHeader = 16\<rparr>"

text \<open>The memory holds one \<^verbatim>\<open>wchar_t\<close> object at each address it is stored to.\<close>

type_synonym 'w memory = "addr \<Rightarrow> 'w"

text \<open>\<^verbatim>\<open>p + n\<close> for a \<^verbatim>\<open>wchar_t* p\<close>.\<close>

definition wptr_add :: "abi \<Rightarrow> addr \<Rightarrow> nat \<Rightarrow> addr" where
  "wptr_add abi p n = p + n * sizeof_wchar_t abi"

text \<open>
  The C library functions the header calls. \<^verbatim>\<open>wmemcpy(dst, src, n)\<close> stores the \<open>n\<close>
  characters of the source view, here given by its contents, at \<open>dst\<close>, \<open>dst + 1\<close>, ...
  \<^verbatim>\<open>wmemcmp(p, q, n)\<close> compares \<open>n\<close> characters and returns a negative, zero or positive
  number at the first difference; the model returns -1, 0 or 1.
\<close>

fun wmemcpy :: "abi \<Rightarrow> 'w memory \<Rightarrow> addr \<Rightarrow> 'w list \<Rightarrow> 'w memory" where
  "wmemcpy abi mem dst [] = mem"
| "wmemcpy abi mem dst (c # cs) = wmemcpy abi (mem(dst := c)) (wptr_add abi dst 1) cs"

fun wmemcmp :: "abi \<Rightarrow> ('w::linorder) memory \<Rightarrow> addr \<Rightarrow> addr \<Rightarrow> nat \<Rightarrow> int" where
  "wmemcmp abi mem p q 0 = 0"
| "wmemcmp abi mem p q (Suc n) =
     (if mem p < mem q then - 1
      else if mem q < mem p then 1
      else wmemcmp abi mem (wptr_add abi p 1) (wptr_add abi q 1) n)"

text \<open>\<^verbatim>\<open>std::wstring{ptr, n}\<close>: the \<open>n\<close> characters at \<open>ptr\<close>, \<open>ptr + 1\<close>, ...\<close>

definition wstring_from :: "abi \<Rightarrow> 'w memory \<Rightarrow> addr \<Rightarrow> nat \<Rightarrow> 'w list" where
  "wstring_from abi mem p n = map (\<lambda>k. mem (wptr_add abi p k)) [0..<n]"

subsection \<open>The class String\<close>

record String =
  m_ptr :: addr
  m_length :: nat

text \<open>\<^verbatim>\<open>String() noexcept = default\<close>: both members value-initialised.\<close>

definition String_default :: String where
  "String_default = \<lparr>m_ptr = nullptr, m_length = 0\<rparr>"

definition Length :: "String \<Rightarrow> nat" where
  "Length this = m_length this"

definition IsEmpty :: "String \<Rightarrow> bool" where
  "IsEmpty this = (m_length this = 0)"

definition ToStdString :: "abi \<Rightarrow> 'w memory \<Rightarrow> String \<Rightarrow> 'w list" where
  "ToStdString abi mem this =
     (if \<not> IsEmpty this then wstring_from abi mem (m_ptr this) (m_length this)
      else [])"

definition Compare :: "abi \<Rightarrow> ('w::linorder) memory \<Rightarrow> String \<Rightarrow> String \<Rightarrow> int" where
  "Compare abi mem this other =
     (let minLength = (if m_length this < m_length other then m_length this
                       else m_length other);
          result = wmemcmp abi mem (m_ptr this) (m_ptr other) minLength
      in if result \<noteq> 0 then result
         else if m_length this < m_length other then - 1
         else if m_length this > m_length other then 1
         else 0)"

definition op_eq :: "abi \<Rightarrow> ('w::linorder) memory \<Rightarrow> String \<Rightarrow> String \<Rightarrow> bool" where
  "op_eq abi mem a b = (Compare abi mem a b = 0)"

definition op_less :: "abi \<Rightarrow> ('w::linorder) memory \<Rightarrow> String \<Rightarrow> String \<Rightarrow> bool" where
  "op_less abi mem a b = (Compare abi mem a b < 0)"

definition op_greater :: "abi \<Rightarrow> ('w::linorder) memory \<Rightarrow> String \<Rightarrow> String \<Rightarrow> bool" where
  "op_greater abi mem a b = (Compare abi mem a b > 0)"

text \<open>
  Moves name two objects, and the move assignment tests whether they are the same one.
  String objects therefore live in a store, indexed by their identity.
\<close>

type_synonym obj = nat

type_synonym objects = "obj \<Rightarrow> String"

text \<open>
  \<^verbatim>\<open>String(String&& other)\<close>: the object under construction is \<open>this\<close>; its members are
  initialised from \<open>other\<close>, then \<open>other\<close> is emptied.
\<close>

definition move_construct :: "objects \<Rightarrow> obj \<Rightarrow> obj \<Rightarrow> objects" where
  "move_construct st this other =
     (let st1 = st(this := \<lparr>m_ptr = m_ptr (st other), m_length = m_length (st other)\<rparr>);
          st2 = st1(other := (st1 other)\<lparr>m_ptr := nullptr\<rparr>);
          st3 = st2(other := (st2 other)\<lparr>m_length := 0\<rparr>)
      in st3)"

text \<open>
  \<^verbatim>\<open>operator=(String&& other)\<close>: the four assignments of the guarded block, statement
  by statement, and the operator with its guard \<^verbatim>\<open>&other != this\<close>.
\<close>

definition move_assign_block :: "objects \<Rightarrow> obj \<Rightarrow> obj \<Rightarrow> objects" where
  "move_assign_block st this other =
     (let st1 = st(this := (st this)\<lparr>m_ptr := m_ptr (st other)\<rparr>);
          st2 = st1(other := (st1 other)\<lparr>m_ptr := nullptr\<rparr>);
          st3 = st2(this := (st2 this)\<lparr>m_length := m_length (st2 other)\<rparr>);
          st4 = st3(other := (st3 other)\<lparr>m_length := 0\<rparr>)
      in st4)"

definition move_assign :: "objects \<Rightarrow> obj \<Rightarrow> obj \<Rightarrow> objects" where
  "move_assign st this other =
     (if other \<noteq> this then move_assign_block st this other else st)"

subsection \<open>The class Allocator\<close>

text \<open>
  A \<^verbatim>\<open>ChunkHeader*\<close> in \<^verbatim>\<open>m_chunks\<close>: the address of the chunk, with the
  \<^verbatim>\<open>SizeInBytes\<close> field of the header stored there.
\<close>

record ChunkHeader =
  chunk_at :: addr
  SizeInBytes :: nat

record Allocator =
  m_pNext :: addr
  m_pLimit :: addr
  m_chunks :: "ChunkHeader list"

definition kMinChunkSizeInBytes :: nat where
  "kMinChunkSizeInBytes = 600000"

definition kMaxStringLength :: nat where
  "kMaxStringLength = 1024 * 1024"

text \<open>\<^verbatim>\<open>Allocator() = default\<close>.\<close>

definition Allocator_default :: Allocator where
  "Allocator_default = \<lparr>m_pNext = nullptr, m_pLimit = nullptr, m_chunks = []\<rparr>"

text \<open>
  Every failure is a \<^verbatim>\<open>std::bad_alloc\<close>; the constructor records which statement
  raised it: the length check, the null test after \<^verbatim>\<open>Allocate\<close>, or
  \<^verbatim>\<open>m_chunks.push_back\<close>.
\<close>

datatype error = AllocationTooLarge | OutOfMemory | PushBackFailed

text \<open>
  \<^verbatim>\<open>std::vector::push_back\<close>. It appends the element, or throws when the vector has to
  obtain new storage and cannot, and then leaves the vector as it was. Whether a vector
  can hold \<open>n\<close> elements is a parameter, \<open>vector_room n\<close>, as the memory provider is.
\<close>

definition push_back :: "(nat \<Rightarrow> bool) \<Rightarrow> 'a list \<Rightarrow> 'a \<Rightarrow> error + 'a list" where
  "push_back vector_room v x =
     (if vector_room (length v + 1) then Inr (v @ [x]) else Inl PushBackFailed)"

text \<open>
  \<^verbatim>\<open>Clear()\<close>: the loop frees each chunk and nulls its entry, the vector is cleared and
  both pointers are reset. The result is the new allocator and the pointers passed to
  \<^verbatim>\<open>Free\<close>, in order.
\<close>

fun Clear_loop :: "ChunkHeader list \<Rightarrow> addr list" where
  "Clear_loop [] = []"
| "Clear_loop (pChunk # rest) = chunk_at pChunk # Clear_loop rest"

definition Clear :: "Allocator \<Rightarrow> Allocator \<times> addr list" where
  "Clear a =
     (let freed = Clear_loop (m_chunks a);
          a1 = a\<lparr>m_chunks := []\<rparr>;
          a2 = a1\<lparr>m_pNext := nullptr\<rparr>;
          a3 = a2\<lparr>m_pLimit := nullptr\<rparr>
      in (a3, freed))"

text \<open>
  \<^verbatim>\<open>AllocMemory(length)\<close>. The memory provider \<^verbatim>\<open>Allocate\<close> (\<^verbatim>\<open>malloc\<close>) is a
  parameter: it maps the requested size to the address of the block, or to \<open>nullptr\<close>.
  The result is what the call returns or throws, and the allocator as the call leaves it:
  when \<^verbatim>\<open>push_back\<close> throws, limit and cursor have been assigned already.
\<close>

function AllocMemory ::
  "abi \<Rightarrow> (nat \<Rightarrow> addr) \<Rightarrow> (nat \<Rightarrow> bool) \<Rightarrow> Allocator \<Rightarrow> nat
     \<Rightarrow> (error + addr) \<times> Allocator" where
  "AllocMemory abi Allocate vector_room a len =
     (let ptr = m_pNext a in
      if wptr_add abi (m_pNext a) len \<le> m_pLimit a then
        (Inr ptr, a\<lparr>m_pNext := wptr_add abi (m_pNext a) len\<rparr>)
      else if len > kMaxStringLength then
        (Inl AllocationTooLarge, a)
      else
        let chunkSizeInBytes0 = len * sizeof_wchar_t abi + sizeof_ChunkHeader abi;
            chunkSizeInBytes = (if chunkSizeInBytes0 < kMinChunkSizeInBytes
                                then kMinChunkSizeInBytes else chunkSizeInBytes0);
            pChunkStart = Allocate chunkSizeInBytes
        in if pChunkStart = nullptr then
             (Inl OutOfMemory, a)
           else
             let a1 = a\<lparr>m_pLimit := pChunkStart + chunkSizeInBytes\<rparr>;
                 pNewChunk = \<lparr>chunk_at = pChunkStart, SizeInBytes = chunkSizeInBytes\<rparr>;
                 a2 = a1\<lparr>m_pNext := pChunkStart + sizeof_ChunkHeader abi\<rparr>
             in case push_back vector_room (m_chunks a2) pNewChunk of
                  Inl e \<Rightarrow> (Inl e, a2)
                | Inr v \<Rightarrow>
                    let a3 = a2\<lparr>m_chunks := v\<rparr>
                    in AllocMemory abi Allocate vector_room a3 len)"
  by pat_completeness auto
termination
  by (relation "measure (\<lambda>(abi, Allocate, vector_room, a, len).
        if wptr_add abi (m_pNext a) len \<le> m_pLimit a then 0 else 1)")
     (auto simp: wptr_add_def)

declare AllocMemory.simps [simp del]

text \<open>
  The same body with a bound on the number of nested calls: \<open>None\<close> when the bound is
  reached. It measures the depth of the recursion.
\<close>

fun AllocMemory_calls ::
  "nat \<Rightarrow> abi \<Rightarrow> (nat \<Rightarrow> addr) \<Rightarrow> (nat \<Rightarrow> bool) \<Rightarrow> Allocator \<Rightarrow> nat
     \<Rightarrow> ((error + addr) \<times> Allocator) option" where
  "AllocMemory_calls 0 abi Allocate vector_room a len = None"
| "AllocMemory_calls (Suc d) abi Allocate vector_room a len =
     (let ptr = m_pNext a in
      if wptr_add abi (m_pNext a) len \<le> m_pLimit a then
        Some (Inr ptr, a\<lparr>m_pNext := wptr_add abi (m_pNext a) len\<rparr>)
      else if len > kMaxStringLength then
        Some (Inl AllocationTooLarge, a)
      else
        let chunkSizeInBytes0 = len * sizeof_wchar_t abi + sizeof_ChunkHeader abi;
            chunkSizeInBytes = (if chunkSizeInBytes0 < kMinChunkSizeInBytes
                                then kMinChunkSizeInBytes else chunkSizeInBytes0);
            pChunkStart = Allocate chunkSizeInBytes
        in if pChunkStart = nullptr then
             Some (Inl OutOfMemory, a)
           else
             let a1 = a\<lparr>m_pLimit := pChunkStart + chunkSizeInBytes\<rparr>;
                 pNewChunk = \<lparr>chunk_at = pChunkStart, SizeInBytes = chunkSizeInBytes\<rparr>;
                 a2 = a1\<lparr>m_pNext := pChunkStart + sizeof_ChunkHeader abi\<rparr>
             in case push_back vector_room (m_chunks a2) pNewChunk of
                  Inl e \<Rightarrow> Some (Inl e, a2)
                | Inr v \<Rightarrow>
                    let a3 = a2\<lparr>m_chunks := v\<rparr>
                    in AllocMemory_calls d abi Allocate vector_room a3 len)"

text \<open>
  \<^verbatim>\<open>AllocString(start, finish)\<close>. The view \<open>[start, finish)\<close> is given by its contents
  \<open>s\<close>, so \<open>finish - start\<close> is \<open>length s\<close>. An exception of \<^verbatim>\<open>AllocMemory\<close> propagates
  before anything is written.
\<close>

definition AllocString ::
  "abi \<Rightarrow> (nat \<Rightarrow> addr) \<Rightarrow> (nat \<Rightarrow> bool) \<Rightarrow> Allocator \<times> ('w::zero) memory \<Rightarrow> 'w list
     \<Rightarrow> (error + String) \<times> Allocator \<times> 'w memory" where
  "AllocString abi Allocate vector_room st s =
     (let a = fst st; mem = snd st;
          len = length s;
          lengthWithNul = len + 1
      in case AllocMemory abi Allocate vector_room a lengthWithNul of
           (Inl e, a') \<Rightarrow> (Inl e, a', mem)
         | (Inr ptr, a') \<Rightarrow>
             let mem1 = wmemcpy abi mem ptr s;
                 mem2 = mem1(wptr_add abi ptr len := 0)
             in (Inr \<lparr>m_ptr = ptr, m_length = len\<rparr>, a', mem2))"

subsection \<open>Reachable allocators and the memory provider\<close>

text \<open>
  The allocators a program can hold: the constructed one, and those that
  \<^verbatim>\<open>AllocString\<close> (with any provider, any vector, any memory and any string, returning
  or throwing at any of the three statements) or \<^verbatim>\<open>Clear\<close> leave behind. The allocator
  a call leaves depends on the length of the string only, so the characters of the rule
  are numbers without loss.
\<close>

inductive reachable :: "abi \<Rightarrow> Allocator \<Rightarrow> bool" for abi :: abi where
  reachable_init: "reachable abi Allocator_default"
| reachable_AllocString:
    "reachable abi a \<Longrightarrow>
     reachable abi (fst (snd (AllocString abi Allocate vector_room (a, mem :: nat memory) s)))"
| reachable_Clear: "reachable abi a \<Longrightarrow> reachable abi (fst (Clear a))"

text \<open>
  Among them, the allocators with an active chunk or none at all: those reached by calls
  in which \<^verbatim>\<open>push_back\<close> has not thrown, so that every block obtained from the provider
  is in the chunk list and cursor and limit lie in the last chunk. \<^verbatim>\<open>AllocString\<close> may
  still return or throw at either \<^verbatim>\<open>throw\<close> statement.
\<close>

inductive reachable_owning :: "abi \<Rightarrow> Allocator \<Rightarrow> bool" for abi :: abi where
  owning_init: "reachable_owning abi Allocator_default"
| owning_AllocString:
    "reachable_owning abi a \<Longrightarrow>
     reachable_owning abi
       (fst (snd (AllocString abi Allocate (\<lambda>n. True) (a, mem :: nat memory) s)))"
| owning_Clear: "reachable_owning abi a \<Longrightarrow> reachable_owning abi (fst (Clear a))"

subsection \<open>Auxiliary notions\<close>

text \<open>
  The size of a new chunk as the specification gives it:
  \<open>max(MinChunkSizeBytes, neededSlots * characterSize + headerSize)\<close>.
\<close>

definition chunk_bytes :: "abi \<Rightarrow> nat \<Rightarrow> nat" where
  "chunk_bytes abi neededSlots =
     max kMinChunkSizeInBytes (neededSlots * sizeof_wchar_t abi + sizeof_ChunkHeader abi)"

text \<open>The test of the carve path, \<^verbatim>\<open>m_pNext + length <= m_pLimit\<close>.\<close>

definition fits :: "abi \<Rightarrow> Allocator \<Rightarrow> nat \<Rightarrow> bool" where
  "fits abi a len = (wptr_add abi (m_pNext a) len \<le> m_pLimit a)"

text \<open>
  The allocator after the three assignments of the growth path, for a block at \<open>p\<close>
  and a request of \<open>len\<close> characters: limit, cursor and, \<^verbatim>\<open>push_back\<close> having returned,
  chunk list.
\<close>

definition grown :: "abi \<Rightarrow> Allocator \<Rightarrow> addr \<Rightarrow> nat \<Rightarrow> Allocator" where
  "grown abi a p len =
     a\<lparr>m_pLimit := p + chunk_bytes abi len,
       m_pNext := p + sizeof_ChunkHeader abi,
       m_chunks := m_chunks a @ [\<lparr>chunk_at = p, SizeInBytes = chunk_bytes abi len\<rparr>]\<rparr>"

text \<open>
  The allocator as a throwing \<^verbatim>\<open>push_back\<close> leaves it: limit and cursor assigned, the
  chunk list as it was.
\<close>

definition moved :: "abi \<Rightarrow> Allocator \<Rightarrow> addr \<Rightarrow> nat \<Rightarrow> Allocator" where
  "moved abi a p len =
     a\<lparr>m_pLimit := p + chunk_bytes abi len,
       m_pNext := p + sizeof_ChunkHeader abi\<rparr>"

text \<open>The whole character slots between cursor and limit.\<close>

definition remaining_slots :: "abi \<Rightarrow> Allocator \<Rightarrow> nat" where
  "remaining_slots abi a = (m_pLimit a - m_pNext a) div sizeof_wchar_t abi"

text \<open>
  The shape of an allocator with an active chunk or none: the cursor is not past the
  limit, less than a minimal chunk is left, and cursor and limit are null when there is
  no chunk and lie in the data region of the last chunk otherwise.
\<close>

definition wf_allocator :: "abi \<Rightarrow> Allocator \<Rightarrow> bool" where
  "wf_allocator abi a \<longleftrightarrow>
     m_pNext a \<le> m_pLimit a \<and>
     m_pLimit a - m_pNext a < kMinChunkSizeInBytes \<and>
     (if m_chunks a = [] then m_pNext a = nullptr \<and> m_pLimit a = nullptr
      else chunk_at (last (m_chunks a)) + sizeof_ChunkHeader abi \<le> m_pNext a \<and>
           m_pLimit a = chunk_at (last (m_chunks a)) + SizeInBytes (last (m_chunks a)))"

text \<open>
  What \<^verbatim>\<open>malloc\<close> promises: a block of \<open>n\<close> bytes it returns overlaps no chunk the
  allocator still owns.
\<close>

definition provider_fresh :: "Allocator \<Rightarrow> (nat \<Rightarrow> addr) \<Rightarrow> nat \<Rightarrow> bool" where
  "provider_fresh a Allocate n \<longleftrightarrow>
     (Allocate n \<noteq> nullptr \<longrightarrow>
      (\<forall>c \<in> set (m_chunks a).
         Allocate n + n \<le> chunk_at c \<or> chunk_at c + SizeInBytes c \<le> Allocate n))"


section \<open>Basic facts\<close>

subsection \<open>The five outcomes of AllocMemory\<close>

lemma chunk_bytes_if:
  "(if len * sizeof_wchar_t abi + sizeof_ChunkHeader abi < kMinChunkSizeInBytes
    then kMinChunkSizeInBytes else len * sizeof_wchar_t abi + sizeof_ChunkHeader abi)
   = chunk_bytes abi len"
  by (simp add: chunk_bytes_def max_def)

lemma fits_grown: "fits abi (grown abi a p len) len"
  by (simp add: fits_def grown_def chunk_bytes_def wptr_add_def)

lemma AllocMemory_carve:
  "fits abi a len \<Longrightarrow>
   AllocMemory abi Allocate vector_room a len =
     (Inr (m_pNext a), a\<lparr>m_pNext := wptr_add abi (m_pNext a) len\<rparr>)"
  by (subst AllocMemory.simps) (simp add: fits_def)

lemma AllocMemory_too_large:
  "\<not> fits abi a len \<Longrightarrow> len > kMaxStringLength \<Longrightarrow>
   AllocMemory abi Allocate vector_room a len = (Inl AllocationTooLarge, a)"
  by (subst AllocMemory.simps) (simp add: fits_def)

lemma AllocMemory_out_of_memory:
  "\<not> fits abi a len \<Longrightarrow> len \<le> kMaxStringLength \<Longrightarrow>
   Allocate (chunk_bytes abi len) = nullptr \<Longrightarrow>
   AllocMemory abi Allocate vector_room a len = (Inl OutOfMemory, a)"
  by (subst AllocMemory.simps) (simp add: fits_def chunk_bytes_if Let_def)

lemma AllocMemory_push_back_failed:
  "\<not> fits abi a len \<Longrightarrow> len \<le> kMaxStringLength \<Longrightarrow>
   Allocate (chunk_bytes abi len) \<noteq> nullptr \<Longrightarrow>
   \<not> vector_room (length (m_chunks a) + 1) \<Longrightarrow>
   AllocMemory abi Allocate vector_room a len =
     (Inl PushBackFailed, moved abi a (Allocate (chunk_bytes abi len)) len)"
  by (subst AllocMemory.simps)
     (simp add: fits_def chunk_bytes_if Let_def moved_def push_back_def)

lemma AllocMemory_retry:
  "\<not> fits abi a len \<Longrightarrow> len \<le> kMaxStringLength \<Longrightarrow>
   Allocate (chunk_bytes abi len) \<noteq> nullptr \<Longrightarrow>
   vector_room (length (m_chunks a) + 1) \<Longrightarrow>
   AllocMemory abi Allocate vector_room a len =
     AllocMemory abi Allocate vector_room (grown abi a (Allocate (chunk_bytes abi len)) len) len"
  by (subst AllocMemory.simps)
     (simp add: fits_def chunk_bytes_if Let_def grown_def push_back_def)

lemma AllocMemory_grow:
  "\<not> fits abi a len \<Longrightarrow> len \<le> kMaxStringLength \<Longrightarrow>
   Allocate (chunk_bytes abi len) \<noteq> nullptr \<Longrightarrow>
   vector_room (length (m_chunks a) + 1) \<Longrightarrow>
   AllocMemory abi Allocate vector_room a len =
     (Inr (Allocate (chunk_bytes abi len) + sizeof_ChunkHeader abi),
      (grown abi a (Allocate (chunk_bytes abi len)) len)
        \<lparr>m_pNext := wptr_add abi (Allocate (chunk_bytes abi len) + sizeof_ChunkHeader abi) len\<rparr>)"
  by (simp add: AllocMemory_retry AllocMemory_carve fits_grown) (simp add: grown_def)

lemma AllocMemory_cases:
  obtains (carve) "fits abi a len"
      "AllocMemory abi Allocate vector_room a len =
         (Inr (m_pNext a), a\<lparr>m_pNext := wptr_add abi (m_pNext a) len\<rparr>)"
  | (too_large) "\<not> fits abi a len" "len > kMaxStringLength"
      "AllocMemory abi Allocate vector_room a len = (Inl AllocationTooLarge, a)"
  | (out_of_memory) "\<not> fits abi a len" "len \<le> kMaxStringLength"
      "Allocate (chunk_bytes abi len) = nullptr"
      "AllocMemory abi Allocate vector_room a len = (Inl OutOfMemory, a)"
  | (push_back_failed) "\<not> fits abi a len" "len \<le> kMaxStringLength"
      "Allocate (chunk_bytes abi len) \<noteq> nullptr"
      "\<not> vector_room (length (m_chunks a) + 1)"
      "AllocMemory abi Allocate vector_room a len =
         (Inl PushBackFailed, moved abi a (Allocate (chunk_bytes abi len)) len)"
  | (grow) "\<not> fits abi a len" "len \<le> kMaxStringLength"
      "Allocate (chunk_bytes abi len) \<noteq> nullptr"
      "vector_room (length (m_chunks a) + 1)"
      "AllocMemory abi Allocate vector_room a len =
        (Inr (Allocate (chunk_bytes abi len) + sizeof_ChunkHeader abi),
         (grown abi a (Allocate (chunk_bytes abi len)) len)
           \<lparr>m_pNext := wptr_add abi (Allocate (chunk_bytes abi len) + sizeof_ChunkHeader abi) len\<rparr>)"
  using AllocMemory_carve AllocMemory_too_large AllocMemory_out_of_memory
    AllocMemory_push_back_failed AllocMemory_grow
  by (metis not_le_imp_less)

subsection \<open>Memory, copies and comparisons\<close>

lemma wptr_add_0 [simp]: "wptr_add abi p 0 = p"
  by (simp add: wptr_add_def)

lemma wptr_add_1 [simp]: "wptr_add abi p (Suc 0) = p + sizeof_wchar_t abi"
  by (simp add: wptr_add_def)

lemma wptr_add_Suc: "wptr_add abi p (Suc k) = wptr_add abi (p + sizeof_wchar_t abi) k"
  by (simp add: wptr_add_def)

lemma wptr_add_inj: "0 < sizeof_wchar_t abi \<Longrightarrow> wptr_add abi p j = wptr_add abi p k \<longleftrightarrow> j = k"
  by (simp add: wptr_add_def)

lemma wptr_add_mono: "j \<le> k \<Longrightarrow> wptr_add abi p j \<le> wptr_add abi p k"
  by (simp add: wptr_add_def)

lemma wptr_add_strict: "0 < sizeof_wchar_t abi \<Longrightarrow> j < k \<Longrightarrow> wptr_add abi p j < wptr_add abi p k"
  by (simp add: wptr_add_def)

lemma wmemcpy_other:
  "(\<And>k. k < length s \<Longrightarrow> x \<noteq> wptr_add abi p k) \<Longrightarrow> wmemcpy abi mem p s x = mem x"
proof (induction s arbitrary: mem p)
  case Nil
  show ?case by simp
next
  case (Cons c cs)
  have "x \<noteq> wptr_add abi (p + sizeof_wchar_t abi) k" if "k < length cs" for k
    using Cons.prems [of "Suc k"] that by (simp add: wptr_add_Suc)
  then have "wmemcpy abi (mem(p := c)) (p + sizeof_wchar_t abi) cs x = (mem(p := c)) x"
    by (rule Cons.IH)
  moreover have "x \<noteq> p"
    using Cons.prems [of 0] by simp
  ultimately show ?case by simp
qed

lemma wmemcpy_at:
  "0 < sizeof_wchar_t abi \<Longrightarrow> k < length s \<Longrightarrow> wmemcpy abi mem p s (wptr_add abi p k) = s ! k"
proof (induction s arbitrary: mem p k)
  case Nil
  then show ?case by simp
next
  case (Cons c cs)
  show ?case
  proof (cases k)
    case 0
    have "wmemcpy abi (mem(p := c)) (p + sizeof_wchar_t abi) cs p = (mem(p := c)) p"
      using Cons.prems(1) by (intro wmemcpy_other) (simp add: wptr_add_def)
    with 0 show ?thesis by simp
  next
    case (Suc j)
    with Cons.prems have "j < length cs" by simp
    from Cons.IH [OF Cons.prems(1) this]
    show ?thesis using Suc by (simp add: wptr_add_Suc)
  qed
qed

lemma wmemcpy_outside:
  assumes "0 < sizeof_wchar_t abi" and "x < p \<or> wptr_add abi p (length s) \<le> x"
  shows "wmemcpy abi mem p s x = mem x"
proof (rule wmemcpy_other)
  fix k assume k: "k < length s"
  have "p \<le> wptr_add abi p k" by (simp add: wptr_add_def)
  moreover have "wptr_add abi p k < wptr_add abi p (length s)"
    using assms(1) k by (rule wptr_add_strict)
  ultimately show "x \<noteq> wptr_add abi p k" using assms(2) by auto
qed

lemma wstring_from_wmemcpy:
  assumes "0 < sizeof_wchar_t abi"
  shows "wstring_from abi (wmemcpy abi mem p s) p (length s) = s"
  by (rule nth_equalityI) (simp_all add: wstring_from_def wmemcpy_at assms)

lemma wstring_from_cong:
  "(\<And>k. k < n \<Longrightarrow> mem' (wptr_add abi p k) = mem (wptr_add abi p k)) \<Longrightarrow>
   wstring_from abi mem' p n = wstring_from abi mem p n"
  by (simp add: wstring_from_def)

lemma length_wstring_from [simp]: "length (wstring_from abi mem p n) = n"
  by (simp add: wstring_from_def)

lemma wstring_from_Suc:
  "wstring_from abi mem p (Suc n) = mem p # wstring_from abi mem (p + sizeof_wchar_t abi) n"
proof -
  have "[0..<Suc n] = 0 # map Suc [0..<n]"
    by (simp add: upt_conv_Cons map_Suc_upt del: upt_Suc)
  then show ?thesis
    by (simp add: wstring_from_def wptr_add_Suc comp_def del: upt_Suc)
qed

lemma take_wstring_from:
  "m \<le> n \<Longrightarrow> take m (wstring_from abi mem p n) = wstring_from abi mem p m"
  by (simp add: wstring_from_def take_map min_def)

lemma wmemcmp_range: "wmemcmp abi mem p q n \<in> {- 1, 0, 1}"
  by (induction n arbitrary: p q) auto

lemma wmemcmp_lex:
  fixes mem :: "('w::linorder) memory"
  shows "(wmemcmp abi mem p q n < 0 \<longleftrightarrow> wstring_from abi mem p n < wstring_from abi mem q n) \<and>
         (wmemcmp abi mem p q n = 0 \<longleftrightarrow> wstring_from abi mem p n = wstring_from abi mem q n) \<and>
         (wmemcmp abi mem p q n > 0 \<longleftrightarrow> wstring_from abi mem q n < wstring_from abi mem p n)"
proof (induction n arbitrary: p q)
  case 0
  show ?case by (simp add: wstring_from_def)
next
  case (Suc n)
  from Suc [of "p + sizeof_wchar_t abi" "q + sizeof_wchar_t abi"]
  show ?case by (auto simp: wstring_from_Suc)
qed

lemma list_less_take:
  fixes xs ys :: "('w::linorder) list"
  shows "xs < ys \<longleftrightarrow>
         take (min (length xs) (length ys)) xs < take (min (length xs) (length ys)) ys \<or>
         take (min (length xs) (length ys)) xs = take (min (length xs) (length ys)) ys \<and>
         length xs < length ys"
proof (induction xs arbitrary: ys)
  case Nil
  show ?case by (cases ys) simp_all
next
  case (Cons x xs)
  show ?case
  proof (cases ys)
    case Nil
    then show ?thesis by simp
  next
    case (Cons y ys')
    with Cons.IH [of ys'] show ?thesis by auto
  qed
qed

lemma list_eq_take:
  "xs = ys \<longleftrightarrow>
     take (min (length xs) (length ys)) xs = take (min (length xs) (length ys)) ys \<and>
     length xs = length ys"
  by auto

lemma ToStdString_eq:
  "ToStdString abi mem h = wstring_from abi mem (m_ptr h) (m_length h)"
  by (simp add: ToStdString_def IsEmpty_def wstring_from_def)

lemma Compare_lex:
  fixes mem :: "('w::linorder) memory" and abi :: abi
  defines "view \<equiv> ToStdString abi mem"
  shows "(Compare abi mem x y < 0 \<longleftrightarrow> view x < view y) \<and>
         (Compare abi mem x y = 0 \<longleftrightarrow> view x = view y) \<and>
         (Compare abi mem x y > 0 \<longleftrightarrow> view y < view x)"
proof -
  define m where "m = min (m_length x) (m_length y)"
  have m: "(if m_length x < m_length y then m_length x else m_length y) = m"
    by (simp add: m_def min_def)
  have tx: "take (min (m_length x) (m_length y)) (view x) = wstring_from abi mem (m_ptr x) m"
    by (simp add: view_def ToStdString_eq m_def take_wstring_from)
  have ty: "take (min (m_length x) (m_length y)) (view y) = wstring_from abi mem (m_ptr y) m"
    by (simp add: view_def ToStdString_eq m_def take_wstring_from)
  have lx: "length (view x) = m_length x" and ly: "length (view y) = m_length y"
    by (simp_all add: view_def ToStdString_eq)
  note w = wmemcmp_lex [of abi mem "m_ptr x" "m_ptr y" m]
  have less: "view x < view y \<longleftrightarrow>
      wmemcmp abi mem (m_ptr x) (m_ptr y) m < 0 \<or>
      wmemcmp abi mem (m_ptr x) (m_ptr y) m = 0 \<and> m_length x < m_length y"
    using list_less_take [of "view x" "view y"] w by (simp only: lx ly tx ty)
  have greater: "view y < view x \<longleftrightarrow>
      wmemcmp abi mem (m_ptr x) (m_ptr y) m > 0 \<or>
      wmemcmp abi mem (m_ptr x) (m_ptr y) m = 0 \<and> m_length y < m_length x"
    using list_less_take [of "view y" "view x"] w
    by (simp only: lx ly min.commute [of "m_length y"] tx ty) auto
  have eq: "view x = view y \<longleftrightarrow>
      wmemcmp abi mem (m_ptr x) (m_ptr y) m = 0 \<and> m_length x = m_length y"
    using list_eq_take [of "view x" "view y"] w by (simp only: lx ly tx ty)
  show ?thesis
    unfolding less greater eq Compare_def m Let_def by auto
qed

subsection \<open>AllocString and the shape of the allocator\<close>

lemma AllocString_eq:
  "AllocString abi Allocate vector_room (a, mem) s =
     (case AllocMemory abi Allocate vector_room a (length s + 1) of
        (Inl e, a') \<Rightarrow> (Inl e, a', mem)
      | (Inr ptr, a') \<Rightarrow>
          (Inr \<lparr>m_ptr = ptr, m_length = length s\<rparr>, a',
           (wmemcpy abi mem ptr s)(wptr_add abi ptr (length s) := 0)))"
  by (simp add: AllocString_def Let_def split: prod.splits sum.splits)

lemma AllocString_allocator:
  "fst (snd (AllocString abi Allocate vector_room (a, mem) s)) = snd (AllocMemory abi Allocate vector_room a (length s + 1))"
  by (simp add: AllocString_eq split: prod.splits sum.splits)

lemma AllocString_InrD:
  assumes "AllocString abi Allocate vector_room (a, mem) s = (Inr h, a', mem')"
  shows "AllocMemory abi Allocate vector_room a (length s + 1) = (Inr (m_ptr h), a')"
    and "m_length h = length s"
    and "mem' = (wmemcpy abi mem (m_ptr h) s)(wptr_add abi (m_ptr h) (length s) := 0)"
  using assms by (auto simp: AllocString_eq split: prod.splits sum.splits)

lemma AllocString_InlD:
  assumes "AllocString abi Allocate vector_room (a, mem) s = (Inl e, a', mem')"
  shows "AllocMemory abi Allocate vector_room a (length s + 1) = (Inl e, a')" and "mem' = mem"
  using assms by (auto simp: AllocString_eq split: prod.splits sum.splits)

lemma AllocString_InrI:
  assumes "AllocMemory abi Allocate vector_room a (length s + 1) = (Inr p, a')"
  shows "AllocString abi Allocate vector_room (a, mem) s =
           (Inr \<lparr>m_ptr = p, m_length = length s\<rparr>, a',
            (wmemcpy abi mem p s)(wptr_add abi p (length s) := 0))"
  using assms by (simp add: AllocString_eq)

lemma AllocString_InlI:
  assumes "AllocMemory abi Allocate vector_room a (length s + 1) = (Inl e, a')"
  shows "AllocString abi Allocate vector_room (a, mem) s = (Inl e, a', mem)"
  using assms by (simp add: AllocString_eq)

lemma AllocMemory_error_unchanged:
  "AllocMemory abi Allocate vector_room a len = (Inl e, a') \<Longrightarrow> e \<noteq> PushBackFailed \<Longrightarrow> a' = a"
  by (cases rule: AllocMemory_cases [where abi = abi and a = a and len = len and Allocate = Allocate
      and vector_room = vector_room]) simp_all

lemma AllocMemory_succeeds:
  assumes "len \<le> kMaxStringLength" and "Allocate (chunk_bytes abi len) \<noteq> nullptr"
    and "vector_room (length (m_chunks a) + 1)"
  shows "\<exists>p a'. AllocMemory abi Allocate vector_room a len = (Inr p, a')"
  using assms by (cases rule: AllocMemory_cases [where abi = abi and a = a and len = len and Allocate = Allocate
      and vector_room = vector_room]) simp_all

lemma written_string:
  assumes "0 < sizeof_wchar_t abi"
  shows "wstring_from abi ((wmemcpy abi mem p s)(wptr_add abi p (length s) := 0)) p (length s) = s"
proof -
  have "wstring_from abi ((wmemcpy abi mem p s)(wptr_add abi p (length s) := 0)) p (length s)
        = wstring_from abi (wmemcpy abi mem p s) p (length s)"
    using assms by (intro wstring_from_cong) (simp add: wptr_add_inj)
  then show ?thesis by (simp add: wstring_from_wmemcpy assms)
qed

lemma cursor_le_limit_AllocMemory:
  assumes "m_pNext a \<le> m_pLimit a"
  shows "m_pNext (snd (AllocMemory abi Allocate vector_room a len)) \<le> m_pLimit (snd (AllocMemory abi Allocate vector_room a len))"
proof (cases rule: AllocMemory_cases [where abi = abi and a = a and len = len and Allocate = Allocate
      and vector_room = vector_room])
  case carve
  then show ?thesis by (simp add: fits_def)
next
  case too_large
  then show ?thesis using assms by simp
next
  case out_of_memory
  then show ?thesis using assms by simp
next
  case push_back_failed
  then show ?thesis by (simp add: moved_def chunk_bytes_def)
next
  case grow
  then show ?thesis by (simp add: grown_def wptr_add_def chunk_bytes_def)
qed

lemma Clear_eq: "fst (Clear a) = Allocator_default"
  by (cases a) (simp add: Clear_def Allocator_default_def)

lemma AllocMemory_room:
  "vector_room (length (m_chunks a) + 1) \<Longrightarrow>
   fst (AllocMemory abi Allocate vector_room a len) \<noteq> Inl PushBackFailed"
  by (cases rule: AllocMemory_cases [where abi = abi and a = a and len = len and Allocate = Allocate
      and vector_room = vector_room]) simp_all

lemma wf_AllocMemory:
  assumes "0 < sizeof_wchar_t abi" and "0 < len" and "wf_allocator abi a"
    and "fst (AllocMemory abi Allocate vector_room a len) \<noteq> Inl PushBackFailed"
  shows "wf_allocator abi (snd (AllocMemory abi Allocate vector_room a len))"
proof (cases rule: AllocMemory_cases [where abi = abi and a = a and len = len and Allocate = Allocate
      and vector_room = vector_room])
  case carve
  have "m_chunks a \<noteq> []"
  proof
    assume "m_chunks a = []"
    with assms(3) have "m_pNext a = 0" "m_pLimit a = 0"
      by (simp_all add: wf_allocator_def nullptr_def)
    with carve(1) assms(1,2) show False by (simp add: fits_def wptr_add_def)
  qed
  with carve assms(3) show ?thesis
    by (auto simp: wf_allocator_def fits_def wptr_add_def)
next
  case too_large
  then show ?thesis using assms by simp
next
  case out_of_memory
  then show ?thesis using assms by simp
next
  case push_back_failed
  then show ?thesis using assms(4) by simp
next
  case grow
  have "0 < len * sizeof_wchar_t abi" using assms(1,2) by simp
  then show ?thesis
    unfolding grow(5)
    by (simp add: wf_allocator_def grown_def wptr_add_def chunk_bytes_def max_def
        kMinChunkSizeInBytes_def)
qed

lemma wf_default: "wf_allocator abi Allocator_default"
  by (simp add: wf_allocator_def Allocator_default_def kMinChunkSizeInBytes_def)

lemma owning_wf:
  assumes "0 < sizeof_wchar_t abi"
  shows "reachable_owning abi a \<Longrightarrow> wf_allocator abi a"
proof (induction rule: reachable_owning.induct)
  case owning_init
  show ?case by (rule wf_default)
next
  case (owning_AllocString a Allocate mem s)
  then show ?case by (simp add: AllocString_allocator wf_AllocMemory AllocMemory_room assms)
next
  case (owning_Clear a)
  show ?case by (simp add: Clear_eq wf_default)
qed

lemma owning_reachable: "reachable_owning abi a \<Longrightarrow> reachable abi a"
  by (induction rule: reachable_owning.induct) (auto intro: reachable.intros)

lemma wf_too_long_not_fits:
  assumes "0 < sizeof_wchar_t abi" and "wf_allocator abi a" and "kMinChunkSizeInBytes \<le> len"
  shows "\<not> fits abi a len"
proof
  assume "fits abi a len"
  then have "len * sizeof_wchar_t abi \<le> m_pLimit a - m_pNext a"
    by (simp add: fits_def wptr_add_def)
  moreover have "len \<le> len * sizeof_wchar_t abi" using assms(1) by simp
  moreover have "m_pLimit a - m_pNext a < kMinChunkSizeInBytes"
    using assms(2) by (simp add: wf_allocator_def)
  ultimately show False using assms(3) by linarith
qed

lemma fits_iff_slots:
  assumes "0 < sizeof_wchar_t abi" and "m_pNext a \<le> m_pLimit a"
  shows "fits abi a len \<longleftrightarrow> len \<le> remaining_slots abi a"
proof -
  have "fits abi a len \<longleftrightarrow> len * sizeof_wchar_t abi \<le> m_pLimit a - m_pNext a"
    using assms(2) by (auto simp: fits_def wptr_add_def)
  also have "\<dots> \<longleftrightarrow> len \<le> remaining_slots abi a"
    using assms(1) by (simp add: remaining_slots_def less_eq_div_iff_mult_less_eq)
  finally show ?thesis .
qed

lemma AllocString_too_large_iff:
  assumes "0 < sizeof_wchar_t abi" and "reachable_owning abi a"
  shows "fst (AllocString abi Allocate vector_room (a, mem) s) = Inl AllocationTooLarge
           \<longleftrightarrow> kMaxStringLength \<le> length s"
proof -
  have wf: "wf_allocator abi a" using assms by (rule owning_wf)
  show ?thesis
  proof (cases rule: AllocMemory_cases [where abi = abi and a = a and len = "length s + 1"
      and Allocate = Allocate and vector_room = vector_room])
    case carve
    have "\<not> kMinChunkSizeInBytes \<le> length s + 1"
      using wf_too_long_not_fits [OF assms(1) wf, of "length s + 1"] carve(1) by blast
    then show ?thesis using carve(2)
      by (simp add: AllocString_eq kMinChunkSizeInBytes_def kMaxStringLength_def)
  next
    case too_large
    then show ?thesis by (simp add: AllocString_eq)
  next
    case out_of_memory
    then show ?thesis by (simp add: AllocString_eq)
  next
    case push_back_failed
    then show ?thesis by (simp add: AllocString_eq)
  next
    case grow
    then show ?thesis by (simp add: AllocString_eq)
  qed
qed

subsection \<open>The bounded variant\<close>

lemma AllocMemory_calls_carve:
  "fits abi a len \<Longrightarrow>
   AllocMemory_calls (Suc d) abi Allocate vector_room a len =
     Some (Inr (m_pNext a), a\<lparr>m_pNext := wptr_add abi (m_pNext a) len\<rparr>)"
  by (simp add: fits_def)

lemma AllocMemory_calls_retry:
  "\<not> fits abi a len \<Longrightarrow> len \<le> kMaxStringLength \<Longrightarrow>
   Allocate (chunk_bytes abi len) \<noteq> nullptr \<Longrightarrow>
   vector_room (length (m_chunks a) + 1) \<Longrightarrow>
   AllocMemory_calls (Suc d) abi Allocate vector_room a len =
     AllocMemory_calls d abi Allocate vector_room
       (grown abi a (Allocate (chunk_bytes abi len)) len) len"
  by (simp add: fits_def chunk_bytes_if Let_def grown_def push_back_def)

lemma AllocMemory_calls_push_back_failed:
  "\<not> fits abi a len \<Longrightarrow> len \<le> kMaxStringLength \<Longrightarrow>
   Allocate (chunk_bytes abi len) \<noteq> nullptr \<Longrightarrow>
   \<not> vector_room (length (m_chunks a) + 1) \<Longrightarrow>
   AllocMemory_calls (Suc d) abi Allocate vector_room a len =
     Some (Inl PushBackFailed, moved abi a (Allocate (chunk_bytes abi len)) len)"
  by (simp add: fits_def chunk_bytes_if Let_def moved_def push_back_def)

subsection \<open>Where an allocation lies\<close>

lemma AllocMemory_placed:
  assumes "0 < sizeof_wchar_t abi" and "wf_allocator abi a" and "0 < len"
    and "AllocMemory abi Allocate vector_room a len = (Inr p, a')"
  shows "wf_allocator abi a'" and "m_chunks a' \<noteq> []"
    and "chunk_at (last (m_chunks a')) \<le> p" and "wptr_add abi p len = m_pNext a'"
proof -
  show "wf_allocator abi a'"
    using wf_AllocMemory [OF assms(1,3,2), of Allocate vector_room] assms(4) by simp
  have "m_chunks a' \<noteq> [] \<and> chunk_at (last (m_chunks a')) \<le> p \<and>
        wptr_add abi p len = m_pNext a'"
  proof (cases rule: AllocMemory_cases [where abi = abi and a = a and len = len and Allocate = Allocate
      and vector_room = vector_room])
    case carve
    have "m_chunks a \<noteq> []"
    proof
      assume "m_chunks a = []"
      with assms(2) have "m_pNext a = 0" "m_pLimit a = 0"
        by (simp_all add: wf_allocator_def nullptr_def)
      with carve(1) assms(1,3) show False by (simp add: fits_def wptr_add_def)
    qed
    with carve(2) assms(2,4) show ?thesis
      by (auto simp: wf_allocator_def)
  next
    case too_large
    with assms(4) show ?thesis by simp
  next
    case out_of_memory
    with assms(4) show ?thesis by simp
  next
    case push_back_failed
    with assms(4) show ?thesis by simp
  next
    case grow
    with assms(4) show ?thesis by (auto simp: grown_def)
  qed
  then show "m_chunks a' \<noteq> []" and "chunk_at (last (m_chunks a')) \<le> p"
    and "wptr_add abi p len = m_pNext a'"
    by simp_all
qed

lemma AllocMemory_apart:
  assumes "wf_allocator abi a" and "m_chunks a \<noteq> []"
    and "provider_fresh a Allocate (chunk_bytes abi len)"
    and "AllocMemory abi Allocate vector_room a len = (Inr p, a')"
  shows "m_pNext a \<le> p \<or> wptr_add abi p len \<le> chunk_at (last (m_chunks a))"
proof (cases rule: AllocMemory_cases [where abi = abi and a = a and len = len and Allocate = Allocate
      and vector_room = vector_room])
  case carve
  with assms(4) show ?thesis by simp
next
  case too_large
  with assms(4) show ?thesis by simp
next
  case out_of_memory
  with assms(4) show ?thesis by simp
next
  case push_back_failed
  with assms(4) show ?thesis by simp
next
  case grow
  define P where "P = Allocate (chunk_bytes abi len)"
  have p: "p = P + sizeof_ChunkHeader abi"
    using grow(5) assms(4) by (simp add: P_def)
  have "last (m_chunks a) \<in> set (m_chunks a)"
    using assms(2) by simp
  with assms(3) grow(3)
  consider "P + chunk_bytes abi len \<le> chunk_at (last (m_chunks a))"
    | "chunk_at (last (m_chunks a)) + SizeInBytes (last (m_chunks a)) \<le> P"
    unfolding provider_fresh_def P_def by blast
  then show ?thesis
  proof cases
    case 1
    have "wptr_add abi p len \<le> P + chunk_bytes abi len"
      by (simp add: p wptr_add_def chunk_bytes_def)
    with 1 show ?thesis by simp
  next
    case 2
    have "m_pNext a \<le> chunk_at (last (m_chunks a)) + SizeInBytes (last (m_chunks a))"
      using assms(1,2) by (simp add: wf_allocator_def)
    with 2 show ?thesis by (simp add: p)
  qed
qed

lemma AllocString_keeps_earlier_string:
  fixes mem1 :: "('w::zero) memory"
  assumes w: "0 < sizeof_wchar_t abi" and wf: "wf_allocator abi a0"
    and x: "AllocString abi Allocate1 vector_room1 (a0, mem0) x = (Inr hx, a1, mem1)"
    and fresh: "provider_fresh a1 Allocate2 (chunk_bytes abi (length y + 1))"
    and y: "AllocString abi Allocate2 vector_room2 (a1, mem1) y = (Inr hy, a2, mem2)"
  shows "ToStdString abi mem2 hx = x"
proof -
  note dx = AllocString_InrD [OF x]
  note dy = AllocString_InrD [OF y]
  note px = AllocMemory_placed [OF w wf _ dx(1)]
  have wf1: "wf_allocator abi a1" and ne: "m_chunks a1 \<noteq> []"
    and lo: "chunk_at (last (m_chunks a1)) \<le> m_ptr hx"
    and hi: "wptr_add abi (m_ptr hx) (length x + 1) = m_pNext a1"
    using px by simp_all
  note apart = AllocMemory_apart [OF wf1 ne fresh dy(1)]
  have same: "mem2 (wptr_add abi (m_ptr hx) j) = mem1 (wptr_add abi (m_ptr hx) j)"
    if j: "j < length x" for j
  proof -
    have xj: "m_ptr hx \<le> wptr_add abi (m_ptr hx) j"
      "wptr_add abi (m_ptr hx) j < wptr_add abi (m_ptr hx) (length x + 1)"
      using wptr_add_strict [OF w, of j "length x + 1" "m_ptr hx"] j
      by (simp_all add: wptr_add_def)
    have ne: "wptr_add abi (m_ptr hx) j \<noteq> wptr_add abi (m_ptr hy) k" if k: "k < length y + 1" for k
    proof -
      have yk: "m_ptr hy \<le> wptr_add abi (m_ptr hy) k"
        "wptr_add abi (m_ptr hy) k < wptr_add abi (m_ptr hy) (length y + 1)"
        using wptr_add_strict [OF w, of k "length y + 1" "m_ptr hy"] k
        by (simp_all add: wptr_add_def)
      from apart show ?thesis
      proof
        assume "m_pNext a1 \<le> m_ptr hy"
        with xj(2) yk(1) hi show ?thesis by simp
      next
        assume "wptr_add abi (m_ptr hy) (length y + 1) \<le> chunk_at (last (m_chunks a1))"
        with yk(2) lo xj(1) show ?thesis by simp
      qed
    qed
    have "mem2 (wptr_add abi (m_ptr hx) j) = wmemcpy abi mem1 (m_ptr hy) y (wptr_add abi (m_ptr hx) j)"
      using ne [of "length y"] by (simp add: dy(3))
    also have "\<dots> = mem1 (wptr_add abi (m_ptr hx) j)"
      using ne by (intro wmemcpy_other) simp
    finally show ?thesis .
  qed
  have "ToStdString abi mem2 hx = wstring_from abi mem1 (m_ptr hx) (length x)"
    unfolding ToStdString_eq dx(2) using same by (rule wstring_from_cong)
  also have "\<dots> = x"
    by (simp add: dx(3) written_string w)
  finally show ?thesis .
qed

lemma AllocString_returns_string:
  fixes mem :: "('w::zero) memory"
  assumes "0 < sizeof_wchar_t abi"
    and "AllocString abi Allocate vector_room (a, mem) s = (Inr h, a', mem')"
  shows "ToStdString abi mem' h = s"
  using AllocString_InrD [OF assms(2)]
  by (simp add: ToStdString_eq written_string assms(1))

subsection \<open>A run on Microsoft x64\<close>

text \<open>
  The provider returns the block at 4096; the string 72, 105 is allocated from a new
  allocator, then the string 72 from the allocator that this leaves.
\<close>

lemma example_AllocMemory:
  "AllocMemory msvc_x64 (\<lambda>n. 4096) (\<lambda>n. True) Allocator_default 3 =
     (Inr 4112, \<lparr>m_pNext = 4118, m_pLimit = 604096,
                 m_chunks = [\<lparr>chunk_at = 4096, SizeInBytes = 600000\<rparr>]\<rparr>)"
  by (subst AllocMemory_grow)
     (simp_all add: fits_def grown_def chunk_bytes_def wptr_add_def msvc_x64_def
       Allocator_default_def nullptr_def kMaxStringLength_def kMinChunkSizeInBytes_def)

lemma example_first:
  "AllocString msvc_x64 (\<lambda>n. 4096) (\<lambda>n. True) (Allocator_default, \<lambda>x. 0 :: nat) [72, 105] =
     (Inr \<lparr>m_ptr = 4112, m_length = 2\<rparr>,
      \<lparr>m_pNext = 4118, m_pLimit = 604096,
       m_chunks = [\<lparr>chunk_at = 4096, SizeInBytes = 600000\<rparr>]\<rparr>,
      (\<lambda>x. 0)(4112 := 72, 4114 := 105, 4116 := 0))"
proof -
  have "AllocMemory msvc_x64 (\<lambda>n. 4096) (\<lambda>n. True) Allocator_default (length [72, 105 :: nat] + 1) =
     (Inr 4112, \<lparr>m_pNext = 4118, m_pLimit = 604096,
                 m_chunks = [\<lparr>chunk_at = 4096, SizeInBytes = 600000\<rparr>]\<rparr>)"
    using example_AllocMemory by (simp add: numeral_3_eq_3)
  from AllocString_InrI [OF this, of "\<lambda>x. 0"]
  show ?thesis by (simp add: wptr_add_def msvc_x64_def)
qed

lemma example_second:
  "AllocString msvc_x64 (\<lambda>n. 1000000) (\<lambda>n. True)
     (\<lparr>m_pNext = 4118, m_pLimit = 604096,
       m_chunks = [\<lparr>chunk_at = 4096, SizeInBytes = 600000\<rparr>]\<rparr>,
      (\<lambda>x. 0 :: nat)(4112 := 72, 4114 := 105, 4116 := 0)) [72] =
     (Inr \<lparr>m_ptr = 4118, m_length = 1\<rparr>,
      \<lparr>m_pNext = 4122, m_pLimit = 604096,
       m_chunks = [\<lparr>chunk_at = 4096, SizeInBytes = 600000\<rparr>]\<rparr>,
      (\<lambda>x. 0)(4112 := 72, 4114 := 105, 4116 := 0, 4118 := 72, 4120 := 0))"
proof -
  have "AllocMemory msvc_x64 (\<lambda>n. 1000000) (\<lambda>n. True)
      \<lparr>m_pNext = 4118, m_pLimit = 604096,
       m_chunks = [\<lparr>chunk_at = 4096, SizeInBytes = 600000\<rparr>]\<rparr> (length [72 :: nat] + 1) =
     (Inr 4118, \<lparr>m_pNext = 4122, m_pLimit = 604096,
                 m_chunks = [\<lparr>chunk_at = 4096, SizeInBytes = 600000\<rparr>]\<rparr>)"
    by (subst AllocMemory_carve) (simp_all add: fits_def wptr_add_def msvc_x64_def)
  from AllocString_InrI [OF this, of "(\<lambda>x. 0)(4112 := 72, 4114 := 105, 4116 := 0)"]
  show ?thesis by (simp add: wptr_add_def msvc_x64_def)
qed

lemma example_owning:
  "reachable_owning msvc_x64
     \<lparr>m_pNext = 4118, m_pLimit = 604096,
      m_chunks = [\<lparr>chunk_at = 4096, SizeInBytes = 600000\<rparr>]\<rparr>"
proof -
  have "reachable_owning msvc_x64
          (fst (snd (AllocString msvc_x64 (\<lambda>n. 4096) (\<lambda>n. True)
             (Allocator_default, \<lambda>x. 0 :: nat) [72, 105])))"
    by (intro reachable_owning.intros)
  then show ?thesis by (simp only: example_first fst_conv snd_conv)
qed

lemma example_reachable:
  "reachable msvc_x64
     \<lparr>m_pNext = 4118, m_pLimit = 604096,
      m_chunks = [\<lparr>chunk_at = 4096, SizeInBytes = 600000\<rparr>]\<rparr>"
  using example_owning by (rule owning_reachable)

text \<open>
  The two \<^verbatim>\<open>throw\<close> statements come before every assignment: a call that throws there
  leaves the allocator and the memory as they were. A call that returns has copied the
  string and written the terminator.
\<close>

lemma AllocString_throw_statements:
  fixes mem :: "('w::zero) memory"
  assumes "AllocString abi Allocate vector_room (a, mem) s = (Inl e, a', mem')"
    and "e \<noteq> PushBackFailed"
  shows "a' = a \<and> mem' = mem"
  using AllocString_InlD [OF assms(1)] assms(2) by (simp add: AllocMemory_error_unchanged)

lemma AllocString_returns_terminated:
  fixes mem :: "('w::zero) memory"
  assumes "0 < sizeof_wchar_t abi"
    and "AllocString abi Allocate vector_room (a, mem) s = (Inr h, a', mem')"
  shows "ToStdString abi mem' h = s \<and> mem' (wptr_add abi (m_ptr h) (length s)) = 0 \<and>
         m_length h = length s"
  using AllocString_InrD [OF assms(2)]
  by (simp add: ToStdString_eq written_string assms(1))

section \<open>The claims\<close>

subsection \<open>C1: round trip\<close>

text \<open>
  Claim C1. Whenever \<^verbatim>\<open>AllocString(s)\<close> returns a handle, converting the handle with
  \<^verbatim>\<open>ToStdString\<close> gives back \<open>s\<close> exactly, \<^verbatim>\<open>Length\<close> is the length of \<open>s\<close> and
  \<^verbatim>\<open>IsEmpty\<close> holds exactly for the empty \<open>s\<close>. A handle is returned, from any
  allocator, for every \<open>s\<close> that the length check of the code accepts (\<open>length s + 1\<close>
  characters, terminator included, do not exceed \<^verbatim>\<open>kMaxStringLength\<close>) when the
  provider grants the chunk that may be needed and the chunk list has room for it.
\<close>

theorem AllocString_round_trip:
  fixes mem :: "('w::zero) memory"
  assumes "0 < sizeof_wchar_t abi"
  shows "(\<forall>h a' mem'. AllocString abi Allocate vector_room (a, mem) s = (Inr h, a', mem') \<longrightarrow>
            ToStdString abi mem' h = s \<and> Length h = length s \<and> (IsEmpty h \<longleftrightarrow> s = [])) \<and>
         (length s < kMaxStringLength \<longrightarrow>
          Allocate (chunk_bytes abi (length s + 1)) \<noteq> nullptr \<longrightarrow>
          vector_room (length (m_chunks a) + 1) \<longrightarrow>
            (\<exists>h a' mem'. AllocString abi Allocate vector_room (a, mem) s = (Inr h, a', mem')))"
proof (intro conjI allI impI)
  fix h a' mem'
  assume r: "AllocString abi Allocate vector_room (a, mem) s = (Inr h, a', mem')"
  note d = AllocString_InrD [OF r]
  show "ToStdString abi mem' h = s"
    by (simp add: ToStdString_eq d(2) d(3) written_string assms)
  show "Length h = length s"
    by (simp add: Length_def d(2))
  show "IsEmpty h \<longleftrightarrow> s = []"
    by (simp add: IsEmpty_def d(2))
next
  assume "length s < kMaxStringLength"
    and "Allocate (chunk_bytes abi (length s + 1)) \<noteq> nullptr"
    and "vector_room (length (m_chunks a) + 1)"
  then obtain p a' where "AllocMemory abi Allocate vector_room a (length s + 1) = (Inr p, a')"
    using AllocMemory_succeeds [where len = "length s + 1" and Allocate = Allocate and abi = abi
        and a = a and vector_room = vector_room] by auto
  from AllocString_InrI [OF this]
  show "\<exists>h a' mem'. AllocString abi Allocate vector_room (a, mem) s = (Inr h, a', mem')"
    by blast
qed

theorem AllocString_round_trip_witness:
  "0 < sizeof_wchar_t msvc_x64 \<and>
   (\<exists>h a' mem'.
      AllocString msvc_x64 (\<lambda>n. 4096) (\<lambda>n. True) (Allocator_default, \<lambda>x. 0) [72, 105 :: nat]
        = (Inr h, a', mem') \<and>
      ToStdString msvc_x64 mem' h = [72, 105] \<and> Length h = 2 \<and> \<not> IsEmpty h)"
proof -
  have w: "0 < sizeof_wchar_t msvc_x64"
    by (simp add: msvc_x64_def)
  note t = AllocString_round_trip [OF w, where Allocate = "\<lambda>n. 4096"
      and vector_room = "\<lambda>n. True" and a = Allocator_default
      and mem = "\<lambda>x. 0" and s = "[72, 105 :: nat]"]
  have "length [72, 105 :: nat] < kMaxStringLength"
    by (simp add: kMaxStringLength_def)
  moreover have "(\<lambda>n. 4096) (chunk_bytes msvc_x64 (length [72, 105 :: nat] + 1)) \<noteq> nullptr"
    by (simp add: nullptr_def)
  ultimately obtain h a' mem' where
    r: "AllocString msvc_x64 (\<lambda>n. 4096) (\<lambda>n. True) (Allocator_default, \<lambda>x. 0) [72, 105 :: nat] = (Inr h, a', mem')"
    using t by blast
  with t have "ToStdString msvc_x64 mem' h = [72, 105] \<and> Length h = 2 \<and> \<not> IsEmpty h"
    by fastforce
  with w r show ?thesis by blast
qed

subsection \<open>C2: the length ceiling\<close>

text \<open>
  Claim C2 says that, with a provider that never fails, \<^verbatim>\<open>AllocString(s)\<close> is rejected
  as too large exactly when \<open>length s > kMaxStringLength\<close>. The check in
  \<^verbatim>\<open>AllocMemory\<close> compares the requested characters, terminator included, with
  \<^verbatim>\<open>kMaxStringLength\<close>: a string of exactly \<^verbatim>\<open>kMaxStringLength\<close> characters is
  rejected by a new allocator whose provider would have granted the block, and the
  allocator and the memory are left as they were.
\<close>

theorem AllocString_rejects_max_length:
  "AllocString msvc_x64 (\<lambda>n. 4096) (\<lambda>n. True) (Allocator_default, \<lambda>x. 0 :: nat)
     (replicate kMaxStringLength 97) = (Inl AllocationTooLarge, Allocator_default, \<lambda>x. 0)"
proof -
  have "\<not> fits msvc_x64 Allocator_default (length (replicate kMaxStringLength (97 :: nat)) + 1)"
    by (simp add: fits_def Allocator_default_def nullptr_def wptr_add_def msvc_x64_def)
  moreover have "length (replicate kMaxStringLength (97 :: nat)) + 1 > kMaxStringLength"
    by simp
  ultimately have "AllocMemory msvc_x64 (\<lambda>n. 4096) (\<lambda>n. True) Allocator_default
      (length (replicate kMaxStringLength (97 :: nat)) + 1) = (Inl AllocationTooLarge, Allocator_default)"
    by (rule AllocMemory_too_large)
  then show ?thesis by (rule AllocString_InlI)
qed

subsection \<open>C3: Compare is the lexicographic order\<close>

text \<open>
  Claim C3. Let \<open>x\<close> and then \<open>y\<close> be allocated from an allocator reached without a
  throwing \<^verbatim>\<open>push_back\<close>, the provider returning on the second call, if anything, a
  block that overlaps no chunk. Then
  \<^verbatim>\<open>Compare\<close> on the two handles, in either order, is negative, zero or positive
  exactly when the standard lexicographic order of lists (character by character, a
  proper prefix being less) puts the first string before, equal to or after the second;
  the operators \<^verbatim>\<open><\<close> and \<^verbatim>\<open>==\<close> on handles agree with those on the strings.
\<close>

theorem Compare_allocated_strings:
  fixes mem0 :: "('w::{linorder,zero}) memory"
  assumes "0 < sizeof_wchar_t abi" and "reachable_owning abi a0"
    and "AllocString abi Allocate1 vector_room1 (a0, mem0) x = (Inr hx, a1, mem1)"
    and "provider_fresh a1 Allocate2 (chunk_bytes abi (length y + 1))"
    and "AllocString abi Allocate2 vector_room2 (a1, mem1) y = (Inr hy, a2, mem2)"
  shows "(Compare abi mem2 hx hy < 0 \<longleftrightarrow> x < y) \<and>
         (Compare abi mem2 hx hy = 0 \<longleftrightarrow> x = y) \<and>
         (Compare abi mem2 hx hy > 0 \<longleftrightarrow> y < x) \<and>
         (Compare abi mem2 hy hx < 0 \<longleftrightarrow> y < x) \<and>
         (Compare abi mem2 hy hx = 0 \<longleftrightarrow> y = x) \<and>
         (Compare abi mem2 hy hx > 0 \<longleftrightarrow> x < y) \<and>
         (op_less abi mem2 hx hy \<longleftrightarrow> x < y) \<and>
         (op_less abi mem2 hy hx \<longleftrightarrow> y < x) \<and>
         (op_eq abi mem2 hx hy \<longleftrightarrow> x = y)"
proof -
  have wf: "wf_allocator abi a0"
    using assms(1,2) by (rule owning_wf)
  have x: "ToStdString abi mem2 hx = x"
    using assms(1) wf assms(3,4,5) by (rule AllocString_keeps_earlier_string)
  have y: "ToStdString abi mem2 hy = y"
    using assms(1,5) by (rule AllocString_returns_string)
  from Compare_lex [of abi mem2 hx hy] Compare_lex [of abi mem2 hy hx]
  show ?thesis
    unfolding x y op_less_def op_eq_def by blast
qed

theorem Compare_allocated_strings_witness:
  "0 < sizeof_wchar_t msvc_x64 \<and> reachable_owning msvc_x64 Allocator_default \<and>
   AllocString msvc_x64 (\<lambda>n. 4096) (\<lambda>n. True) (Allocator_default, \<lambda>x. 0 :: nat) [72, 105] =
     (Inr \<lparr>m_ptr = 4112, m_length = 2\<rparr>,
      \<lparr>m_pNext = 4118, m_pLimit = 604096,
       m_chunks = [\<lparr>chunk_at = 4096, SizeInBytes = 600000\<rparr>]\<rparr>,
      (\<lambda>x. 0)(4112 := 72, 4114 := 105, 4116 := 0)) \<and>
   provider_fresh \<lparr>m_pNext = 4118, m_pLimit = 604096,
       m_chunks = [\<lparr>chunk_at = 4096, SizeInBytes = 600000\<rparr>]\<rparr> (\<lambda>n. 1000000)
     (chunk_bytes msvc_x64 (length [72 :: nat] + 1)) \<and>
   AllocString msvc_x64 (\<lambda>n. 1000000) (\<lambda>n. True)
     (\<lparr>m_pNext = 4118, m_pLimit = 604096,
       m_chunks = [\<lparr>chunk_at = 4096, SizeInBytes = 600000\<rparr>]\<rparr>,
      (\<lambda>x. 0 :: nat)(4112 := 72, 4114 := 105, 4116 := 0)) [72] =
     (Inr \<lparr>m_ptr = 4118, m_length = 1\<rparr>,
      \<lparr>m_pNext = 4122, m_pLimit = 604096,
       m_chunks = [\<lparr>chunk_at = 4096, SizeInBytes = 600000\<rparr>]\<rparr>,
      (\<lambda>x. 0)(4112 := 72, 4114 := 105, 4116 := 0, 4118 := 72, 4120 := 0)) \<and>
   [72 :: nat] < [72, 105] \<and>
   0 < Compare msvc_x64 ((\<lambda>x. 0 :: nat)(4112 := 72, 4114 := 105, 4116 := 0, 4118 := 72, 4120 := 0))
         \<lparr>m_ptr = 4112, m_length = 2\<rparr> \<lparr>m_ptr = 4118, m_length = 1\<rparr> \<and>
   Compare msvc_x64 ((\<lambda>x. 0 :: nat)(4112 := 72, 4114 := 105, 4116 := 0, 4118 := 72, 4120 := 0))
         \<lparr>m_ptr = 4118, m_length = 1\<rparr> \<lparr>m_ptr = 4112, m_length = 2\<rparr> < 0"
proof -
  have 1: "0 < sizeof_wchar_t msvc_x64"
    by (simp add: msvc_x64_def)
  have 2: "reachable_owning msvc_x64 Allocator_default"
    by (rule owning_init)
  have 4: "provider_fresh \<lparr>m_pNext = 4118, m_pLimit = 604096,
       m_chunks = [\<lparr>chunk_at = 4096, SizeInBytes = 600000\<rparr>]\<rparr> (\<lambda>n. 1000000)
     (chunk_bytes msvc_x64 (length [72 :: nat] + 1))"
    by (simp add: provider_fresh_def)
  have 6: "[72 :: nat] < [72, 105]"
    by simp
  from Compare_allocated_strings [OF 1 2 example_first 4 example_second] 6
  show ?thesis
    using 1 2 4 example_first example_second by simp
qed

subsection \<open>C4: the boundary between carving and growing\<close>

text \<open>
  Claim C4. In an allocator with an active chunk (reached without a throwing
  \<^verbatim>\<open>push_back\<close>), a string whose \<open>length s + 1\<close> slots are exactly the slots left
  between cursor and limit is carved from the current chunk: the call returns a handle at
  the old cursor, the chunk list is unchanged whatever the provider and the vector would
  answer, and no slot is left. A string needing one slot more takes the growth path: the
  provider is asked for one chunk, and when it grants the block and \<^verbatim>\<open>push_back\<close>
  returns, exactly that one chunk is appended and the handle lies in it. When the
  provider refuses, the call throws and nothing changes; when \<^verbatim>\<open>push_back\<close> throws,
  the chunk list is unchanged and cursor and limit point into the new block.
\<close>

theorem carve_grow_boundary:
  fixes mem :: "('w::zero) memory"
  assumes "0 < sizeof_wchar_t abi" and "reachable_owning abi a" and "m_chunks a \<noteq> []"
  shows "(length s + 1 = remaining_slots abi a \<longrightarrow>
            (\<exists>h mem'. AllocString abi Allocate vector_room (a, mem) s
                 = (Inr h, a\<lparr>m_pNext := wptr_add abi (m_pNext a) (length s + 1)\<rparr>, mem') \<and>
               m_ptr h = m_pNext a) \<and>
            m_chunks (fst (snd (AllocString abi Allocate vector_room (a, mem) s))) = m_chunks a \<and>
            remaining_slots abi (fst (snd (AllocString abi Allocate vector_room (a, mem) s))) = 0) \<and>
         (length s + 1 = remaining_slots abi a + 1 \<longrightarrow>
            (Allocate (chunk_bytes abi (length s + 1)) = nullptr \<longrightarrow>
               AllocString abi Allocate vector_room (a, mem) s = (Inl OutOfMemory, a, mem)) \<and>
            (Allocate (chunk_bytes abi (length s + 1)) \<noteq> nullptr \<longrightarrow>
             vector_room (length (m_chunks a) + 1) \<longrightarrow>
               (\<exists>h. fst (AllocString abi Allocate vector_room (a, mem) s) = Inr h \<and>
                  m_ptr h = Allocate (chunk_bytes abi (length s + 1)) + sizeof_ChunkHeader abi) \<and>
               m_chunks (fst (snd (AllocString abi Allocate vector_room (a, mem) s)))
                 = m_chunks a @ [\<lparr>chunk_at = Allocate (chunk_bytes abi (length s + 1)),
                                   SizeInBytes = chunk_bytes abi (length s + 1)\<rparr>]) \<and>
            (Allocate (chunk_bytes abi (length s + 1)) \<noteq> nullptr \<longrightarrow>
             \<not> vector_room (length (m_chunks a) + 1) \<longrightarrow>
               AllocString abi Allocate vector_room (a, mem) s
                 = (Inl PushBackFailed,
                    moved abi a (Allocate (chunk_bytes abi (length s + 1))) (length s + 1), mem)))"
proof -
  have wf: "wf_allocator abi a"
    using assms(1,2) by (rule owning_wf)
  then have le: "m_pNext a \<le> m_pLimit a"
    by (simp add: wf_allocator_def)
  note slots = fits_iff_slots [OF assms(1) le]
  have exact: ?thesis if eq: "length s + 1 = remaining_slots abi a"
  proof -
    have f: "fits abi a (length s + 1)"
      using eq by (simp add: slots)
    note m = AllocMemory_carve [OF f, of Allocate vector_room]
    note r = AllocString_InrI [OF m, of mem]
    have "(m_pLimit a - wptr_add abi (m_pNext a) (length s + 1)) div sizeof_wchar_t abi = 0"
    proof -
      have "(m_pLimit a - m_pNext a) div sizeof_wchar_t abi = length s + 1"
        using eq by (simp add: remaining_slots_def)
      then have "m_pLimit a - m_pNext a < (length s + 1 + 1) * sizeof_wchar_t abi"
        using assms(1) by (metis Suc_eq_plus1 div_less_iff_less_mult lessI)
      then have "m_pLimit a - wptr_add abi (m_pNext a) (length s + 1) < sizeof_wchar_t abi"
        using assms(1) by (simp add: wptr_add_def)
      then show ?thesis by simp
    qed
    then show ?thesis
      using eq by (simp add: r remaining_slots_def)
  qed
  have over: ?thesis if eq: "length s + 1 = remaining_slots abi a + 1"
  proof -
    have f: "\<not> fits abi a (length s + 1)"
      using eq by (simp add: slots)
    have "remaining_slots abi a \<le> m_pLimit a - m_pNext a"
      by (simp add: remaining_slots_def)
    also have "\<dots> < kMinChunkSizeInBytes"
      using wf by (simp add: wf_allocator_def)
    finally have k: "length s + 1 \<le> kMaxStringLength"
      using eq by (simp add: kMinChunkSizeInBytes_def kMaxStringLength_def)
    have oom: "AllocString abi Allocate vector_room (a, mem) s = (Inl OutOfMemory, a, mem)"
      if "Allocate (chunk_bytes abi (length s + 1)) = nullptr"
      using AllocMemory_out_of_memory [of abi a "length s + 1" Allocate vector_room, OF f k that]
      by (rule AllocString_InlI)
    have thrown: "AllocString abi Allocate vector_room (a, mem) s
                 = (Inl PushBackFailed,
                    moved abi a (Allocate (chunk_bytes abi (length s + 1))) (length s + 1), mem)"
      if "Allocate (chunk_bytes abi (length s + 1)) \<noteq> nullptr"
        and "\<not> vector_room (length (m_chunks a) + 1)"
      using AllocMemory_push_back_failed [of abi a "length s + 1" Allocate vector_room,
          OF f k that]
      by (rule AllocString_InlI)
    have grow: "(\<exists>h. fst (AllocString abi Allocate vector_room (a, mem) s) = Inr h \<and>
                  m_ptr h = Allocate (chunk_bytes abi (length s + 1)) + sizeof_ChunkHeader abi) \<and>
               m_chunks (fst (snd (AllocString abi Allocate vector_room (a, mem) s)))
                 = m_chunks a @ [\<lparr>chunk_at = Allocate (chunk_bytes abi (length s + 1)),
                                   SizeInBytes = chunk_bytes abi (length s + 1)\<rparr>]"
      if "Allocate (chunk_bytes abi (length s + 1)) \<noteq> nullptr"
        and "vector_room (length (m_chunks a) + 1)"
      using AllocString_InrI [OF AllocMemory_grow [of abi a "length s + 1" Allocate vector_room,
            OF f k that], of mem]
      by (simp add: grown_def)
    from eq oom grow thrown show ?thesis by simp
  qed
  from exact over show ?thesis by blast
qed

theorem carve_grow_boundary_witness:
  "0 < sizeof_wchar_t msvc_x64 \<and>
   reachable_owning msvc_x64 \<lparr>m_pNext = 4118, m_pLimit = 604096,
      m_chunks = [\<lparr>chunk_at = 4096, SizeInBytes = 600000\<rparr>]\<rparr> \<and>
   m_chunks \<lparr>m_pNext = 4118, m_pLimit = 604096,
      m_chunks = [\<lparr>chunk_at = 4096, SizeInBytes = 600000\<rparr>]\<rparr> \<noteq> [] \<and>
   remaining_slots msvc_x64 \<lparr>m_pNext = 4118, m_pLimit = 604096,
      m_chunks = [\<lparr>chunk_at = 4096, SizeInBytes = 600000\<rparr>]\<rparr> = 299989 \<and>
   m_chunks (fst (snd (AllocString msvc_x64 (\<lambda>n. 1000000) (\<lambda>n. True)
     (\<lparr>m_pNext = 4118, m_pLimit = 604096,
       m_chunks = [\<lparr>chunk_at = 4096, SizeInBytes = 600000\<rparr>]\<rparr>, \<lambda>x. 0 :: nat)
     (replicate 299988 7))))
     = [\<lparr>chunk_at = 4096, SizeInBytes = 600000\<rparr>] \<and>
   m_chunks (fst (snd (AllocString msvc_x64 (\<lambda>n. 1000000) (\<lambda>n. True)
     (\<lparr>m_pNext = 4118, m_pLimit = 604096,
       m_chunks = [\<lparr>chunk_at = 4096, SizeInBytes = 600000\<rparr>]\<rparr>, \<lambda>x. 0 :: nat)
     (replicate 299989 7))))
     = [\<lparr>chunk_at = 4096, SizeInBytes = 600000\<rparr>,
        \<lparr>chunk_at = 1000000, SizeInBytes = 600000\<rparr>]"
proof -
  let ?a = "\<lparr>m_pNext = 4118, m_pLimit = 604096,
      m_chunks = [\<lparr>chunk_at = 4096, SizeInBytes = 600000\<rparr>]\<rparr>"
  have 1: "0 < sizeof_wchar_t msvc_x64"
    by (simp add: msvc_x64_def)
  have 3: "m_chunks ?a \<noteq> []"
    by simp
  have r: "remaining_slots msvc_x64 ?a = 299989"
    by (simp add: remaining_slots_def msvc_x64_def)
  have c: "chunk_bytes msvc_x64 (299989 + 1) = 600000"
    by (simp add: chunk_bytes_def msvc_x64_def kMinChunkSizeInBytes_def)
  note t = carve_grow_boundary [OF 1 example_owning 3, where Allocate = "\<lambda>n. 1000000"
      and vector_room = "\<lambda>n. True" and mem = "\<lambda>x. 0 :: nat"]
  have "m_chunks (fst (snd (AllocString msvc_x64 (\<lambda>n. 1000000) (\<lambda>n. True) (?a, \<lambda>x. 0 :: nat)
          (replicate 299988 7)))) = [\<lparr>chunk_at = 4096, SizeInBytes = 600000\<rparr>]"
    using t [where s = "replicate 299988 7"] r by simp
  moreover
  have "m_chunks (fst (snd (AllocString msvc_x64 (\<lambda>n. 1000000) (\<lambda>n. True) (?a, \<lambda>x. 0 :: nat)
          (replicate 299989 7)))) = [\<lparr>chunk_at = 4096, SizeInBytes = 600000\<rparr>,
        \<lparr>chunk_at = 1000000, SizeInBytes = 600000\<rparr>]"
    using t [where s = "replicate 299989 7"] r c
    by (simp add: nullptr_def)
  ultimately show ?thesis
    using 1 example_owning 3 r by blast
qed

subsection \<open>C5: a call succeeds completely or changes nothing\<close>

text \<open>
  Claim C5 says that a call of \<^verbatim>\<open>AllocString\<close> that fails leaves the allocator (chunk
  list, cursor, limit) exactly as it was. That holds for the two \<^verbatim>\<open>throw\<close> statements
  (lemma \<open>AllocString_throw_statements\<close>), which come before every assignment. It does
  not hold when \<^verbatim>\<open>m_chunks.push_back\<close> throws: limit and cursor are assigned before
  that call. On a new allocator, with the provider granting the block at 4096 and the
  vector unable to grow, the call for the string 72, 105 throws and leaves cursor and
  limit pointing into the new block, which is in no list: \<^verbatim>\<open>Clear\<close> on the allocator
  that is left frees nothing.
\<close>

theorem AllocString_push_back_throws:
  "AllocString msvc_x64 (\<lambda>n. 4096) (\<lambda>n. False) (Allocator_default, \<lambda>x. 0 :: nat) [72, 105] =
     (Inl PushBackFailed, \<lparr>m_pNext = 4112, m_pLimit = 604096, m_chunks = []\<rparr>, \<lambda>x. 0) \<and>
   \<lparr>m_pNext = 4112, m_pLimit = 604096, m_chunks = []\<rparr> \<noteq> Allocator_default \<and>
   snd (Clear \<lparr>m_pNext = 4112, m_pLimit = 604096, m_chunks = []\<rparr>) = []"
proof -
  have f: "\<not> fits msvc_x64 Allocator_default (length [72, 105 :: nat] + 1)"
    by (simp add: fits_def msvc_x64_def Allocator_default_def nullptr_def wptr_add_def)
  have k: "length [72, 105 :: nat] + 1 \<le> kMaxStringLength"
    by (simp add: kMaxStringLength_def)
  have p: "(\<lambda>n. 4096) (chunk_bytes msvc_x64 (length [72, 105 :: nat] + 1)) \<noteq> nullptr"
    by (simp add: nullptr_def)
  have v: "\<not> (\<lambda>n. False) (length (m_chunks Allocator_default) + 1)"
    by simp
  have "AllocMemory msvc_x64 (\<lambda>n. 4096) (\<lambda>n. False) Allocator_default
          (length [72, 105 :: nat] + 1) =
        (Inl PushBackFailed,
         moved msvc_x64 Allocator_default 4096 (length [72, 105 :: nat] + 1))"
    using AllocMemory_push_back_failed [OF f k p v] by simp
  then have "AllocString msvc_x64 (\<lambda>n. 4096) (\<lambda>n. False) (Allocator_default, \<lambda>x. 0 :: nat)
      [72, 105] =
        (Inl PushBackFailed,
         moved msvc_x64 Allocator_default 4096 (length [72, 105 :: nat] + 1), \<lambda>x. 0)"
    by (rule AllocString_InlI)
  moreover have "moved msvc_x64 Allocator_default 4096 (length [72, 105 :: nat] + 1) =
      \<lparr>m_pNext = 4112, m_pLimit = 604096, m_chunks = []\<rparr>"
    by (simp add: moved_def Allocator_default_def chunk_bytes_def msvc_x64_def
        kMinChunkSizeInBytes_def)
  ultimately show ?thesis
    by (simp add: Clear_def Allocator_default_def nullptr_def)
qed

subsection \<open>C6: Clear gives a new allocator\<close>

text \<open>
  Claim C6. \<^verbatim>\<open>Clear()\<close> frees every chunk and leaves the allocator equal to a newly
  constructed one: no chunks, cursor and limit null. Every \<^verbatim>\<open>AllocString\<close> call on it
  therefore gives what the same call gives on a new allocator, and the first accepted
  request creates the only chunk (the provider granting the block and the chunk list
  having room for one element).
\<close>

theorem Clear_gives_new_allocator:
  fixes mem :: "('w::zero) memory"
  shows "fst (Clear a) = Allocator_default \<and>
         m_chunks (fst (Clear a)) = [] \<and>
         m_pNext (fst (Clear a)) = nullptr \<and>
         m_pLimit (fst (Clear a)) = nullptr \<and>
         snd (Clear a) = map chunk_at (m_chunks a) \<and>
         AllocString abi Allocate vector_room (fst (Clear a), mem) s
           = AllocString abi Allocate vector_room (Allocator_default, mem) s \<and>
         (0 < sizeof_wchar_t abi \<longrightarrow> length s < kMaxStringLength \<longrightarrow>
          Allocate (chunk_bytes abi (length s + 1)) \<noteq> nullptr \<longrightarrow> vector_room 1 \<longrightarrow>
            m_chunks (fst (snd (AllocString abi Allocate vector_room (fst (Clear a), mem) s)))
              = [\<lparr>chunk_at = Allocate (chunk_bytes abi (length s + 1)),
                   SizeInBytes = chunk_bytes abi (length s + 1)\<rparr>])"
proof -
  have freed: "Clear_loop cs = map chunk_at cs" for cs
    by (induction cs) simp_all
  have first: "m_chunks (snd (AllocMemory abi Allocate vector_room Allocator_default (length s + 1)))
      = [\<lparr>chunk_at = Allocate (chunk_bytes abi (length s + 1)),
           SizeInBytes = chunk_bytes abi (length s + 1)\<rparr>]"
    if "0 < sizeof_wchar_t abi" "length s < kMaxStringLength"
      "Allocate (chunk_bytes abi (length s + 1)) \<noteq> nullptr" "vector_room 1"
  proof -
    have "\<not> fits abi Allocator_default (length s + 1)"
      using that(1) by (simp add: fits_def Allocator_default_def nullptr_def wptr_add_def)
    then show ?thesis
      using that(2,3,4)
      by (subst AllocMemory_grow) (simp_all add: grown_def Allocator_default_def)
  qed
  have "snd (Clear a) = map chunk_at (m_chunks a)"
    by (simp add: Clear_def freed Let_def)
  moreover have "m_chunks (fst (snd (AllocString abi Allocate vector_room (fst (Clear a), mem) s)))
      = [\<lparr>chunk_at = Allocate (chunk_bytes abi (length s + 1)),
           SizeInBytes = chunk_bytes abi (length s + 1)\<rparr>]"
    if "0 < sizeof_wchar_t abi" "length s < kMaxStringLength"
      "Allocate (chunk_bytes abi (length s + 1)) \<noteq> nullptr" "vector_room 1"
    unfolding Clear_eq AllocString_allocator using that by (rule first)
  ultimately show ?thesis
    by (simp add: Clear_eq) (simp add: Allocator_default_def)
qed

theorem Clear_gives_new_allocator_witness:
  "0 < sizeof_wchar_t msvc_x64 \<and> length [72, 105 :: nat] < kMaxStringLength \<and>
   (\<lambda>n. 4096) (chunk_bytes msvc_x64 (length [72, 105 :: nat] + 1)) \<noteq> nullptr \<and>
   (\<lambda>n. True) (1 :: nat) \<and>
   m_chunks (fst (snd (AllocString msvc_x64 (\<lambda>n. 4096) (\<lambda>n. True)
      (fst (Clear \<lparr>m_pNext = 4118, m_pLimit = 604096,
                   m_chunks = [\<lparr>chunk_at = 4096, SizeInBytes = 600000\<rparr>]\<rparr>), \<lambda>x. 0)
      [72, 105 :: nat])))
     = [\<lparr>chunk_at = 4096, SizeInBytes = chunk_bytes msvc_x64 (length [72, 105 :: nat] + 1)\<rparr>]"
proof -
  have 1: "0 < sizeof_wchar_t msvc_x64"
    by (simp add: msvc_x64_def)
  have 2: "length [72, 105 :: nat] < kMaxStringLength"
    by (simp add: kMaxStringLength_def)
  have 3: "(\<lambda>n. 4096) (chunk_bytes msvc_x64 (length [72, 105 :: nat] + 1)) \<noteq> nullptr"
    by (simp add: nullptr_def)
  from 1 2 3 Clear_gives_new_allocator [where abi = msvc_x64 and Allocate = "\<lambda>n. 4096"
      and vector_room = "\<lambda>n. True" and a = "\<lparr>m_pNext = 4118, m_pLimit = 604096,
                 m_chunks = [\<lparr>chunk_at = 4096, SizeInBytes = 600000\<rparr>]\<rparr>"
      and mem = "\<lambda>x. 0 :: nat" and s = "[72, 105 :: nat]"]
  show ?thesis by blast
qed

subsection \<open>C7: moving a handle\<close>

text \<open>
  Claim C7. Move-constructing or move-assigning a handle \<open>h\<close> into a different object
  \<open>h2\<close> leaves \<open>h\<close> equal to a default-constructed handle (null pointer, length 0,
  \<^verbatim>\<open>IsEmpty\<close>, converting to the empty string) and gives \<open>h2\<close> the pointer and the
  length that \<open>h\<close> had.
\<close>

theorem move_empties_source:
  fixes mem :: "'w memory"
  assumes "h \<noteq> h2"
  shows "IsEmpty (move_construct st h2 h h) \<and>
         m_ptr (move_construct st h2 h h) = nullptr \<and>
         move_construct st h2 h h = String_default \<and>
         Length (move_construct st h2 h h) = 0 \<and>
         ToStdString abi mem (move_construct st h2 h h) = [] \<and>
         m_ptr (move_construct st h2 h h2) = m_ptr (st h) \<and>
         m_length (move_construct st h2 h h2) = m_length (st h) \<and>
         ToStdString abi mem (move_construct st h2 h h2) = ToStdString abi mem (st h) \<and>
         IsEmpty (move_assign st h2 h h) \<and>
         m_ptr (move_assign st h2 h h) = nullptr \<and>
         move_assign st h2 h h = String_default \<and>
         Length (move_assign st h2 h h) = 0 \<and>
         ToStdString abi mem (move_assign st h2 h h) = [] \<and>
         m_ptr (move_assign st h2 h h2) = m_ptr (st h) \<and>
         m_length (move_assign st h2 h h2) = m_length (st h) \<and>
         ToStdString abi mem (move_assign st h2 h h2) = ToStdString abi mem (st h)"
proof -
  have c: "move_construct st h2 h h = String_default"
    "move_construct st h2 h h2 = \<lparr>m_ptr = m_ptr (st h), m_length = m_length (st h)\<rparr>"
    using assms by (simp_all add: move_construct_def String_default_def Let_def)
  have a: "move_assign st h2 h h = String_default"
    "move_assign st h2 h h2 = \<lparr>m_ptr = m_ptr (st h), m_length = m_length (st h)\<rparr>"
    using assms
    by (simp_all add: move_assign_def move_assign_block_def String_default_def Let_def)
  show ?thesis
    unfolding c a
    by (simp add: String_default_def IsEmpty_def Length_def ToStdString_def)
qed

theorem move_empties_source_witness:
  "(0::nat) \<noteq> 1 \<and>
   move_construct (\<lambda>i. \<lparr>m_ptr = 4112, m_length = 2\<rparr>) 1 0 0 = String_default \<and>
   m_ptr (move_construct (\<lambda>i. \<lparr>m_ptr = 4112, m_length = 2\<rparr>) 1 0 1) = 4112 \<and>
   m_length (move_construct (\<lambda>i. \<lparr>m_ptr = 4112, m_length = 2\<rparr>) 1 0 1) = 2 \<and>
   move_assign (\<lambda>i. \<lparr>m_ptr = 4112, m_length = 2\<rparr>) 1 0 0 = String_default \<and>
   m_ptr (move_assign (\<lambda>i. \<lparr>m_ptr = 4112, m_length = 2\<rparr>) 1 0 1) = 4112 \<and>
   m_length (move_assign (\<lambda>i. \<lparr>m_ptr = 4112, m_length = 2\<rparr>) 1 0 1) = 2"
proof -
  have d: "(0::nat) \<noteq> 1" by simp
  from move_empties_source [OF d, where st = "\<lambda>i. \<lparr>m_ptr = 4112, m_length = 2\<rparr>"
      and abi = msvc_x64 and mem = "\<lambda>x. 0 :: nat"]
  show ?thesis by simp
qed

subsection \<open>C8: the cursor never passes the limit\<close>

text \<open>
  Claim C8. In every allocator reachable from construction by \<^verbatim>\<open>AllocString\<close> calls
  (returning or throwing, at either \<^verbatim>\<open>throw\<close> statement or in \<^verbatim>\<open>push_back\<close>, with any
  provider) and \<^verbatim>\<open>Clear\<close> calls, the cursor is at most the limit.
\<close>

theorem reachable_cursor_le_limit:
  "reachable abi a \<Longrightarrow> m_pNext a \<le> m_pLimit a"
proof (induction rule: reachable.induct)
  case reachable_init
  show ?case by (simp add: Allocator_default_def)
next
  case (reachable_AllocString a Allocate vector_room mem s)
  then show ?case by (simp add: AllocString_allocator cursor_le_limit_AllocMemory)
next
  case (reachable_Clear a)
  show ?case by (simp add: Clear_eq Allocator_default_def)
qed

theorem reachable_cursor_le_limit_witness:
  "reachable msvc_x64
     \<lparr>m_pNext = 4118, m_pLimit = 604096,
      m_chunks = [\<lparr>chunk_at = 4096, SizeInBytes = 600000\<rparr>]\<rparr> \<and>
   m_pNext \<lparr>m_pNext = 4118, m_pLimit = 604096,
            m_chunks = [\<lparr>chunk_at = 4096, SizeInBytes = 600000\<rparr>]\<rparr>
     \<le> m_pLimit \<lparr>m_pNext = 4118, m_pLimit = 604096,
                 m_chunks = [\<lparr>chunk_at = 4096, SizeInBytes = 600000\<rparr>]\<rparr>"
  using example_reachable reachable_cursor_le_limit [OF example_reachable] by blast

subsection \<open>C9: one retry at most\<close>

text \<open>
  Claim C9. \<^verbatim>\<open>AllocMemory\<close> always returns or throws within two nested calls. When the
  request does not fit, passes the length check and the provider grants the block, the
  new chunk has \<open>max(kMinChunkSizeInBytes, len * sizeof(wchar_t) + sizeof(ChunkHeader))\<close>
  bytes and the request fits the allocator after growth; then, \<^verbatim>\<open>push_back\<close> having
  appended the chunk, one call is not enough and the retry returns the start of the data
  region of the new chunk.
\<close>

theorem AllocMemory_recursion_depth:
  "AllocMemory_calls 2 abi Allocate vector_room a len
     = Some (AllocMemory abi Allocate vector_room a len) \<and>
   (\<not> fits abi a len \<longrightarrow> len \<le> kMaxStringLength \<longrightarrow>
    Allocate (chunk_bytes abi len) \<noteq> nullptr \<longrightarrow>
      fits abi (grown abi a (Allocate (chunk_bytes abi len)) len) len \<and>
      SizeInBytes (last (m_chunks (grown abi a (Allocate (chunk_bytes abi len)) len)))
        = max kMinChunkSizeInBytes (len * sizeof_wchar_t abi + sizeof_ChunkHeader abi) \<and>
      (vector_room (length (m_chunks a) + 1) \<longrightarrow>
         AllocMemory_calls 1 abi Allocate vector_room a len = None \<and>
         AllocMemory abi Allocate vector_room a len =
           (Inr (Allocate (chunk_bytes abi len) + sizeof_ChunkHeader abi),
            (grown abi a (Allocate (chunk_bytes abi len)) len)
              \<lparr>m_pNext :=
                 wptr_add abi (Allocate (chunk_bytes abi len) + sizeof_ChunkHeader abi) len\<rparr>)))"
proof (intro conjI impI)
  have two: "(2::nat) = Suc (Suc 0)" by simp
  show "AllocMemory_calls 2 abi Allocate vector_room a len
          = Some (AllocMemory abi Allocate vector_room a len)"
  proof (cases rule: AllocMemory_cases [where abi = abi and a = a and len = len
        and Allocate = Allocate and vector_room = vector_room])
    case carve
    then show ?thesis unfolding two by (simp only: AllocMemory_calls_carve)
  next
    case too_large
    then show ?thesis unfolding two by (simp add: fits_def)
  next
    case out_of_memory
    then show ?thesis unfolding two by (simp add: fits_def chunk_bytes_if Let_def)
  next
    case push_back_failed
    have "AllocMemory_calls (Suc (Suc 0)) abi Allocate vector_room a len =
            Some (Inl PushBackFailed, moved abi a (Allocate (chunk_bytes abi len)) len)"
      using push_back_failed(1,2,3,4) by (rule AllocMemory_calls_push_back_failed)
    then show ?thesis unfolding two push_back_failed(5) .
  next
    case grow
    have "AllocMemory_calls (Suc (Suc 0)) abi Allocate vector_room a len =
            AllocMemory_calls (Suc 0) abi Allocate vector_room
              (grown abi a (Allocate (chunk_bytes abi len)) len) len"
      using grow(1,2,3,4) by (rule AllocMemory_calls_retry)
    also have "\<dots> = Some (AllocMemory abi Allocate vector_room a len)"
      unfolding grow(5)
      by (simp only: AllocMemory_calls_carve [OF fits_grown]) (simp add: grown_def)
    finally show ?thesis unfolding two .
  qed
next
  show "fits abi (grown abi a (Allocate (chunk_bytes abi len)) len) len"
    by (rule fits_grown)
  show "SizeInBytes (last (m_chunks (grown abi a (Allocate (chunk_bytes abi len)) len)))
        = max kMinChunkSizeInBytes (len * sizeof_wchar_t abi + sizeof_ChunkHeader abi)"
    by (simp add: grown_def chunk_bytes_def)
next
  assume g: "\<not> fits abi a len" "len \<le> kMaxStringLength"
    "Allocate (chunk_bytes abi len) \<noteq> nullptr" "vector_room (length (m_chunks a) + 1)"
  have "AllocMemory_calls (Suc 0) abi Allocate vector_room a len =
          AllocMemory_calls 0 abi Allocate vector_room
            (grown abi a (Allocate (chunk_bytes abi len)) len) len"
    using g by (rule AllocMemory_calls_retry)
  then show "AllocMemory_calls 1 abi Allocate vector_room a len = None" by simp
  show "AllocMemory abi Allocate vector_room a len =
        (Inr (Allocate (chunk_bytes abi len) + sizeof_ChunkHeader abi),
         (grown abi a (Allocate (chunk_bytes abi len)) len)
           \<lparr>m_pNext :=
              wptr_add abi (Allocate (chunk_bytes abi len) + sizeof_ChunkHeader abi) len\<rparr>)"
    using g by (rule AllocMemory_grow)
qed

theorem AllocMemory_recursion_depth_witness:
  "\<not> fits msvc_x64 Allocator_default 3 \<and> 3 \<le> kMaxStringLength \<and>
   (\<lambda>n. 4096) (chunk_bytes msvc_x64 3) \<noteq> nullptr \<and>
   (\<lambda>n. True) (length (m_chunks Allocator_default) + 1) \<and>
   AllocMemory_calls 1 msvc_x64 (\<lambda>n. 4096) (\<lambda>n. True) Allocator_default 3 = None \<and>
   AllocMemory_calls 2 msvc_x64 (\<lambda>n. 4096) (\<lambda>n. True) Allocator_default 3 =
     Some (Inr 4112, \<lparr>m_pNext = 4118, m_pLimit = 604096,
                      m_chunks = [\<lparr>chunk_at = 4096, SizeInBytes = 600000\<rparr>]\<rparr>)"
proof -
  have 1: "\<not> fits msvc_x64 Allocator_default 3"
    by (simp add: fits_def msvc_x64_def Allocator_default_def nullptr_def wptr_add_def)
  have 2: "3 \<le> kMaxStringLength"
    by (simp add: kMaxStringLength_def)
  have 3: "(\<lambda>n. 4096) (chunk_bytes msvc_x64 3) \<noteq> nullptr"
    by (simp add: nullptr_def)
  from 1 2 3 AllocMemory_recursion_depth [of msvc_x64 "\<lambda>n. 4096" "\<lambda>n. True"
      Allocator_default 3]
  show ?thesis by (simp add: example_AllocMemory)
qed

subsection \<open>C10: moving a handle to itself\<close>

text \<open>
  Claim C10. Move-assigning a handle to itself changes nothing: every object, the handle
  included, keeps its pointer and its length. The guard is what does it: the guarded
  block, run on one and the same object, would leave it empty.
\<close>

theorem move_assign_self:
  "move_assign st h h = st \<and>
   m_ptr (move_assign st h h h) = m_ptr (st h) \<and>
   m_length (move_assign st h h h) = m_length (st h) \<and>
   (IsEmpty (move_assign st h h h) \<longleftrightarrow> IsEmpty (st h)) \<and>
   move_assign_block st h h h = String_default"
  by (simp add: move_assign_def move_assign_block_def String_default_def Let_def)

end
